theory Spec2Isabelle
  imports Main
begin

section \<open>Python text primitives used by \<^verbatim>\<open>adb.py\<close>\<close>

text \<open>
  Text is modelled as \<^typ>\<open>string\<close> restricted to ASCII, which is what the bridge
  executable prints and what the menu reads.  The functions of this section follow the
  CPython behaviour of the \<^verbatim>\<open>str\<close> methods, of \<^verbatim>\<open>int\<close>, of list indexing and of
  \<^verbatim>\<open>shlex.split\<close> on such text.
\<close>

definition is_space :: "char \<Rightarrow> bool" where
  \<comment> \<open>\<^verbatim>\<open>str.isspace\<close> on ASCII: TAB, LF, VT, FF, CR, FS, GS, RS, US and the blank.\<close>
  "is_space c \<longleftrightarrow> c \<in> set [CHR 0x09, CHR 0x0A, CHR 0x0B, CHR 0x0C, CHR 0x0D,
                            CHR 0x1C, CHR 0x1D, CHR 0x1E, CHR 0x1F, CHR 0x20]"

definition strip :: "string \<Rightarrow> string" where
  \<comment> \<open>\<^verbatim>\<open>s.strip()\<close>\<close>
  "strip s = rev (dropWhile is_space (rev (dropWhile is_space s)))"

fun str_split :: "string \<Rightarrow> string list" where
  \<comment> \<open>\<^verbatim>\<open>s.split()\<close>: maximal runs of non-blank characters\<close>
  "str_split [] = []"
| "str_split (c # cs) =
     (if is_space c then str_split cs
      else (case str_split cs of
              [] \<Rightarrow> [[c]]
            | t # ts \<Rightarrow> (case cs of
                           [] \<Rightarrow> [[c]]
                         | d # _ \<Rightarrow> if is_space d then [c] # t # ts else (c # t) # ts)))"

definition split_max1 :: "string \<Rightarrow> string list" where
  \<comment> \<open>\<^verbatim>\<open>s.split(maxsplit=1)\<close>: the first token, then the rest without the blanks before it\<close>
  "split_max1 s =
     (let a = dropWhile is_space s;
          t = takeWhile (\<lambda>c. \<not> is_space c) a;
          r = dropWhile is_space (dropWhile (\<lambda>c. \<not> is_space c) a)
      in if t = [] then [] else if r = [] then [t] else [t, r])"

definition is_linebreak :: "char \<Rightarrow> bool" where
  \<comment> \<open>the ASCII line boundaries of \<^verbatim>\<open>str.splitlines\<close>: LF, VT, FF, CR, FS, GS, RS\<close>
  "is_linebreak c \<longleftrightarrow> c \<in> set [CHR 0x0A, CHR 0x0B, CHR 0x0C, CHR 0x0D,
                                CHR 0x1C, CHR 0x1D, CHR 0x1E]"

fun splitlines_acc :: "string \<Rightarrow> string \<Rightarrow> string list" where
  \<comment> \<open>the accumulator holds the current line, reversed; CR LF counts as one boundary\<close>
  "splitlines_acc acc [] = (if acc = [] then [] else [rev acc])"
| "splitlines_acc acc (c # cs) =
     (if c = CHR 0x0D then
        (case cs of
           d # ds \<Rightarrow> if d = CHR 0x0A then rev acc # splitlines_acc [] ds
                     else rev acc # splitlines_acc [] cs
         | [] \<Rightarrow> [rev acc])
      else if is_linebreak c then rev acc # splitlines_acc [] cs
      else splitlines_acc (c # acc) cs)"

definition splitlines :: "string \<Rightarrow> string list" where
  \<comment> \<open>\<^verbatim>\<open>s.splitlines()\<close>\<close>
  "splitlines s = splitlines_acc [] s"

fun startswith :: "string \<Rightarrow> string \<Rightarrow> bool" where
  \<comment> \<open>\<^verbatim>\<open>s.startswith(p)\<close>, the text first and the prefix second\<close>
  "startswith s [] = True"
| "startswith [] (p # ps) = False"
| "startswith (c # cs) (p # ps) = (c = p \<and> startswith cs ps)"

fun str_in :: "string \<Rightarrow> string \<Rightarrow> bool" where
  \<comment> \<open>\<^verbatim>\<open>p in s\<close>: \<open>p\<close> occurs in \<open>s\<close> as a contiguous run\<close>
  "str_in p [] = (p = [])"
| "str_in p (c # cs) = (startswith (c # cs) p \<or> str_in p cs)"

definition split_colon_first :: "string \<Rightarrow> string" where
  \<comment> \<open>\<^verbatim>\<open>s.split(":")[0]\<close>: everything before the first colon\<close>
  "split_colon_first s = takeWhile (\<lambda>c. c \<noteq> CHR '':'') s"

definition or_else :: "string \<Rightarrow> string \<Rightarrow> string" where
  \<comment> \<open>\<^verbatim>\<open>a or b\<close> on text: \<open>a\<close> unless it is empty\<close>
  "or_else a b = (if a \<noteq> [] then a else b)"

definition lower_char :: "char \<Rightarrow> char" where
  "lower_char c =
     (let n = (of_char c :: nat) in if 65 \<le> n \<and> n \<le> 90 then char_of (n + 32) else c)"

definition lower :: "string \<Rightarrow> string" where
  \<comment> \<open>\<^verbatim>\<open>s.lower()\<close>\<close>
  "lower s = map lower_char s"

subsection \<open>Decimal numerals\<close>

definition digit_char :: "nat \<Rightarrow> char" where
  "digit_char d = char_of (48 + d)"

fun str_nat_fuel :: "nat \<Rightarrow> nat \<Rightarrow> string" where
  \<comment> \<open>the decimal digits of a number; the first argument bounds the number of digits\<close>
  "str_nat_fuel 0 n = []"
| "str_nat_fuel (Suc f) n =
     (if n < 10 then [digit_char n] else str_nat_fuel f (n div 10) @ [digit_char (n mod 10)])"

definition str_nat :: "nat \<Rightarrow> string" where
  \<comment> \<open>\<^verbatim>\<open>str(n)\<close> for \<open>n \<ge> 0\<close>; a number has at most \<open>n + 1\<close> digits\<close>
  "str_nat n = str_nat_fuel (Suc n) n"

definition str_int :: "int \<Rightarrow> string" where
  \<comment> \<open>\<^verbatim>\<open>str(i)\<close>\<close>
  "str_int i = (if i < 0 then CHR ''-'' # str_nat (nat (- i)) else str_nat (nat i))"

definition is_digit :: "char \<Rightarrow> bool" where
  "is_digit c \<longleftrightarrow> (48 :: nat) \<le> of_char c \<and> (of_char c :: nat) \<le> 57"

definition digit_val :: "char \<Rightarrow> nat" where
  "digit_val c = of_char c - (48 :: nat)"

fun digits_acc :: "nat \<Rightarrow> string \<Rightarrow> nat option" where
  \<comment> \<open>the rest of a numeral after a digit: digits, each optionally preceded by one underscore\<close>
  "digits_acc n [] = Some n"
| "digits_acc n (c # cs) =
     (if is_digit c then digits_acc (10 * n + digit_val c) cs
      else if c = CHR ''_'' then
        (case cs of
           d # ds \<Rightarrow> if is_digit d then digits_acc (10 * n + digit_val d) ds else None
         | [] \<Rightarrow> None)
      else None)"

definition digits :: "string \<Rightarrow> nat option" where
  "digits s = (case s of
                 [] \<Rightarrow> None
               | c # cs \<Rightarrow> if is_digit c then digits_acc (digit_val c) cs else None)"

definition is_cspace :: "char \<Rightarrow> bool" where
  \<comment> \<open>the blanks \<^verbatim>\<open>int\<close> skips around an ASCII numeral: TAB, LF, VT, FF, CR and the blank\<close>
  "is_cspace c \<longleftrightarrow> c \<in> set [CHR 0x09, CHR 0x0A, CHR 0x0B, CHR 0x0C, CHR 0x0D, CHR 0x20]"

definition py_int :: "string \<Rightarrow> int option" where
  \<comment> \<open>\<^verbatim>\<open>int(s)\<close>; \<open>None\<close> stands for \<^verbatim>\<open>ValueError\<close>\<close>
  "py_int s =
     (let t = rev (dropWhile is_cspace (rev (dropWhile is_cspace s)))
      in case t of
           [] \<Rightarrow> None
         | c # cs \<Rightarrow>
             if c = CHR ''-'' then map_option (\<lambda>n. - int n) (digits cs)
             else if c = CHR ''+'' then map_option int (digits cs)
             else map_option int (digits t))"

definition py_index :: "'a list \<Rightarrow> int \<Rightarrow> 'a option" where
  \<comment> \<open>\<^verbatim>\<open>xs[i]\<close>: a negative index counts from the end; \<open>None\<close> stands for
      \<^verbatim>\<open>IndexError\<close>\<close>
  "py_index xs i =
     (let n = int (length xs); j = (if i < 0 then n + i else i)
      in if 0 \<le> j \<and> j < n then Some (xs ! nat j) else None)"

subsection \<open>\<^verbatim>\<open>shlex.split\<close>\<close>

text \<open>
  \<^verbatim>\<open>shlex.split(s)\<close> runs the lexer in POSIX mode with \<^verbatim>\<open>whitespace_split\<close> set, no
  comment characters and no punctuation characters.  The lexer is the state machine of
  \<^verbatim>\<open>shlex.read_token\<close>: state \<^verbatim>\<open>' '\<close> between tokens, \<^verbatim>\<open>'a'\<close> inside a word, a quote
  character inside quotes and the backslash after an escape.  \<open>Inl\<close> carries the text of the
  \<^verbatim>\<open>ValueError\<close> it raises.
\<close>

datatype lex_state = Lex_blank | Lex_word | Lex_quote char | Lex_escape

definition lex_whitespace :: "char \<Rightarrow> bool" where
  "lex_whitespace c \<longleftrightarrow> c \<in> set [CHR 0x20, CHR 0x09, CHR 0x0D, CHR 0x0A]"

definition lex_is_quote :: "char \<Rightarrow> bool" where
  "lex_is_quote c \<longleftrightarrow> c = CHR 0x27 \<or> c = CHR 0x22"

definition lex_emit :: "string \<Rightarrow> string + string list \<Rightarrow> string + string list" where
  "lex_emit tok r = (case r of Inl e \<Rightarrow> Inl e | Inr ts \<Rightarrow> Inr (tok # ts))"

fun lex_run :: "lex_state \<Rightarrow> lex_state \<Rightarrow> bool \<Rightarrow> string \<Rightarrow> string \<Rightarrow> string + string list" where
  \<comment> \<open>arguments: state, \<^verbatim>\<open>escapedstate\<close>, \<^verbatim>\<open>quoted\<close>, the token so far, the unread input\<close>
  "lex_run st esc quoted tok [] =
     (case st of
        Lex_quote q \<Rightarrow> Inl ''No closing quotation''
      | Lex_escape \<Rightarrow> Inl ''No escaped character''
      | _ \<Rightarrow> Inr (if tok = [] \<and> \<not> quoted then [] else [tok]))"
| "lex_run Lex_blank esc quoted tok (c # cs) =
     (if lex_whitespace c then
        (if tok \<noteq> [] \<or> quoted then lex_emit tok (lex_run Lex_blank Lex_blank False [] cs)
         else lex_run Lex_blank esc quoted tok cs)
      else if c = CHR 0x5C then lex_run Lex_escape Lex_word quoted tok cs
      else if lex_is_quote c then lex_run (Lex_quote c) esc quoted tok cs
      else lex_run Lex_word esc quoted [c] cs)"
| "lex_run (Lex_quote q) esc quoted tok (c # cs) =
     (if c = q then lex_run Lex_word esc True tok cs
      else if c = CHR 0x5C \<and> q = CHR 0x22 then lex_run Lex_escape (Lex_quote q) True tok cs
      else lex_run (Lex_quote q) esc True (tok @ [c]) cs)"
| "lex_run Lex_escape esc quoted tok (c # cs) =
     (let tok' = (case esc of
                    Lex_quote q \<Rightarrow> if c \<noteq> CHR 0x5C \<and> c \<noteq> q then tok @ [CHR 0x5C] else tok
                  | _ \<Rightarrow> tok)
      in lex_run esc esc quoted (tok' @ [c]) cs)"
| "lex_run Lex_word esc quoted tok (c # cs) =
     (if lex_whitespace c then
        (if tok \<noteq> [] \<or> quoted then lex_emit tok (lex_run Lex_blank Lex_blank False [] cs)
         else lex_run Lex_blank esc quoted tok cs)
      else if lex_is_quote c then lex_run (Lex_quote c) esc quoted tok cs
      else if c = CHR 0x5C then lex_run Lex_escape Lex_word quoted tok cs
      else lex_run Lex_word esc quoted (tok @ [c]) cs)"

definition shlex_split :: "string \<Rightarrow> string + string list" where
  "shlex_split s = lex_run Lex_blank Lex_blank False [] s"

section \<open>The environment of a session\<close>

text \<open>
  The program talks to a user, to a console, to the file system and to external
  executables.  A session state holds what the user will type and the effects performed so
  far, in order; the environment answers every query as a function of the time, which is the
  number of effects performed so far, so that a tool or a device may appear or vanish during a
  session.  Exceptions are values: every operation returns \<open>Inl\<close> of the exception it raises
  or \<open>Inr\<close> of its result, with the state it leaves behind.
\<close>

datatype exn =
    FileNotFoundError string
  | ValueError string
  | EOFError
  | KeyboardInterrupt
  | OtherException string

fun exn_str :: "exn \<Rightarrow> string" where
  \<comment> \<open>\<^verbatim>\<open>str(e)\<close>\<close>
  "exn_str (FileNotFoundError m) = m"
| "exn_str (ValueError m) = m"
| "exn_str EOFError = []"
| "exn_str KeyboardInterrupt = []"
| "exn_str (OtherException m) = m"

fun is_Exception :: "exn \<Rightarrow> bool" where
  \<comment> \<open>what \<^verbatim>\<open>except Exception\<close> catches: everything but the interrupt\<close>
  "is_Exception KeyboardInterrupt = False"
| "is_Exception e = True"

datatype key = Typed string | CtrlC

datatype io_mode = Captured | Attached

datatype event =
    Print string
  | Print_panel string string string
  | Print_table string "string list" "string list list"
  | Clear_screen
  | Ask string
  | Read_line
  | Launch io_mode "string list"
  | Make_dir string
  | Download string string

record session =
  inputs :: "key list"
  trace :: "event list"

record world =
  os_nt :: bool
  platform_system :: string
  app_root :: string
  which_at :: "nat \<Rightarrow> string \<Rightarrow> string option"
  exists_at :: "nat \<Rightarrow> string \<Rightarrow> bool"
  isfile_at :: "nat \<Rightarrow> string \<Rightarrow> bool"
  run_at :: "nat \<Rightarrow> string list \<Rightarrow> exn + (int \<times> string \<times> string)"
  mkdir_at :: "nat \<Rightarrow> string \<Rightarrow> exn option"
  import_at :: "nat \<Rightarrow> exn option"
  fetch_at :: "nat \<Rightarrow> string \<Rightarrow> string \<Rightarrow> exn option"
  signal_name :: "nat \<Rightarrow> string option"

text \<open>
  \<^item> \<open>os_nt\<close>: \<^verbatim>\<open>os.name == "nt"\<close>; \<open>platform_system\<close>: \<^verbatim>\<open>platform.system()\<close>;
    \<open>app_root\<close>: the text of \<^verbatim>\<open>APP_ROOT\<close>.
  \<^item> \<open>which_at\<close>: \<^verbatim>\<open>shutil.which\<close>; \<open>exists_at\<close>: \<^verbatim>\<open>os.path.exists\<close> and
    \<^verbatim>\<open>Path.exists\<close>; \<open>isfile_at\<close>: \<^verbatim>\<open>os.path.isfile\<close>.
  \<^item> \<open>run_at\<close>: \<^verbatim>\<open>subprocess.run\<close> on a command line: the exception it raises, or the exit
    code with the standard output and the standard error of the child.
  \<^item> \<open>mkdir_at\<close>, \<open>import_at\<close>, \<open>fetch_at\<close>: creating the cache directory, importing the
    download libraries, and downloading and unpacking the archive; \<open>None\<close> is success.
  \<^item> \<open>signal_name\<close>: the name of a signal number in \<^verbatim>\<open>signal.Signals\<close>.
\<close>

type_synonym 'a act = "session \<Rightarrow> (exn + 'a) \<times> session"

definition now :: "session \<Rightarrow> nat" where
  "now s = length (trace s)"

definition ret :: "'a \<Rightarrow> 'a act" where
  "ret x = (\<lambda>s. (Inr x, s))"

definition raise :: "exn \<Rightarrow> 'a act" where
  "raise e = (\<lambda>s. (Inl e, s))"

definition bnd :: "'a act \<Rightarrow> ('a \<Rightarrow> 'b act) \<Rightarrow> 'b act" where
  \<comment> \<open>sequencing: an exception of the first part skips the second\<close>
  "bnd m f = (\<lambda>s. case m s of (Inl e, s') \<Rightarrow> (Inl e, s') | (Inr x, s') \<Rightarrow> f x s')"

definition emit :: "event \<Rightarrow> unit act" where
  "emit ev = (\<lambda>s. (Inr (), s\<lparr>trace := trace s @ [ev]\<rparr>))"

definition console_print :: "string \<Rightarrow> unit act" where
  \<comment> \<open>\<^verbatim>\<open>console.print(text)\<close>, the text with its markup as the program passes it\<close>
  "console_print t = emit (Print t)"

fun print_all :: "string list \<Rightarrow> unit act" where
  "print_all [] = ret ()"
| "print_all (t # ts) = bnd (console_print t) (\<lambda>_. print_all ts)"

definition launches :: "session \<Rightarrow> (io_mode \<times> string list) list" where
  \<comment> \<open>the command lines handed to \<^verbatim>\<open>subprocess.run\<close> so far\<close>
  "launches s = concat (map (\<lambda>ev. case ev of Launch m cmd \<Rightarrow> [(m, cmd)] | _ \<Rightarrow> []) (trace s))"

definition prints :: "session \<Rightarrow> string list" where
  \<comment> \<open>the texts printed so far\<close>
  "prints s = concat (map (\<lambda>ev. case ev of Print t \<Rightarrow> [t] | _ \<Rightarrow> []) (trace s))"

definition asks :: "session \<Rightarrow> string list" where
  \<comment> \<open>the prompts shown so far\<close>
  "asks s = concat (map (\<lambda>ev. case ev of Ask p \<Rightarrow> [p] | _ \<Rightarrow> []) (trace s))"

subsection \<open>Reading from the user\<close>

text \<open>
  \<^verbatim>\<open>Prompt.ask\<close> of the \<^verbatim>\<open>rich\<close> library shows the prompt and reads a line; an empty
  line yields the default when there is one, any other line is returned stripped.  An
  interrupt raises \<^verbatim>\<open>KeyboardInterrupt\<close>, the end of the input raises \<^verbatim>\<open>EOFError\<close>.
\<close>

definition prompt_ask :: "string \<Rightarrow> string option \<Rightarrow> string act" where
  "prompt_ask p dflt = (\<lambda>s.
     let s' = s\<lparr>trace := trace s @ [Ask p]\<rparr>
     in case inputs s of
          [] \<Rightarrow> (Inl EOFError, s')
        | CtrlC # ks \<Rightarrow> (Inl KeyboardInterrupt, s'\<lparr>inputs := ks\<rparr>)
        | Typed l # ks \<Rightarrow>
            (Inr (case dflt of
                    Some d \<Rightarrow> if l = [] then d else strip l
                  | None \<Rightarrow> strip l),
             s'\<lparr>inputs := ks\<rparr>))"

text \<open>
  \<^verbatim>\<open>Confirm.ask\<close> accepts \<^verbatim>\<open>y\<close> and \<^verbatim>\<open>n\<close> in either case, and asks again after
  anything else.
\<close>

fun confirm_keys :: "string \<Rightarrow> key list \<Rightarrow> event list \<Rightarrow> (exn + bool) \<times> key list \<times> event list" where
  "confirm_keys p [] tr = (Inl EOFError, [], tr @ [Ask p])"
| "confirm_keys p (CtrlC # ks) tr = (Inl KeyboardInterrupt, ks, tr @ [Ask p])"
| "confirm_keys p (Typed l # ks) tr =
     (let v = lower (strip l)
      in if v = ''y'' then (Inr True, ks, tr @ [Ask p])
         else if v = ''n'' then (Inr False, ks, tr @ [Ask p])
         else confirm_keys p ks (tr @ [Ask p, Print ''[prompt.invalid]Please enter Y or N'']))"

definition confirm_ask :: "string \<Rightarrow> bool act" where
  "confirm_ask p = (\<lambda>s.
     case confirm_keys p (inputs s) (trace s) of
       (r, ks, tr) \<Rightarrow> (r, s\<lparr>inputs := ks, trace := tr\<rparr>))"

definition read_line :: "string act" where
  \<comment> \<open>\<^verbatim>\<open>input()\<close>\<close>
  "read_line = (\<lambda>s.
     let s' = s\<lparr>trace := trace s @ [Read_line]\<rparr>
     in case inputs s of
          [] \<Rightarrow> (Inl EOFError, s')
        | CtrlC # ks \<Rightarrow> (Inl KeyboardInterrupt, s'\<lparr>inputs := ks\<rparr>)
        | Typed l # ks \<Rightarrow> (Inr l, s'\<lparr>inputs := ks\<rparr>))"

subsection \<open>Queries and external effects\<close>

definition which_now :: "world \<Rightarrow> string \<Rightarrow> string option act" where
  "which_now w exe = (\<lambda>s. (Inr (which_at w (now s) exe), s))"

definition exists_now :: "world \<Rightarrow> string \<Rightarrow> bool act" where
  "exists_now w p = (\<lambda>s. (Inr (exists_at w (now s) p), s))"

definition isfile_now :: "world \<Rightarrow> string \<Rightarrow> bool act" where
  "isfile_now w p = (\<lambda>s. (Inr (isfile_at w (now s) p), s))"

definition subprocess_run :: "world \<Rightarrow> io_mode \<Rightarrow> string list \<Rightarrow> (int \<times> string \<times> string) act" where
  \<comment> \<open>\<^verbatim>\<open>subprocess.run(cmd, check=False)\<close>, with or without captured output\<close>
  "subprocess_run w m cmd = (\<lambda>s.
     (run_at w (now s) cmd, s\<lparr>trace := trace s @ [Launch m cmd]\<rparr>))"

definition py_repr_strs :: "string list \<Rightarrow> string" where
  \<comment> \<open>\<^verbatim>\<open>repr\<close> of a list of plain words\<close>
  "py_repr_strs xs =
     ''['' @ concat (map (\<lambda>(i, x). (if i = 0 then [] else '', '') @ [CHR 0x27] @ x @ [CHR 0x27])
                      (zip [0 ..< length xs] xs)) @ '']''"

definition called_process_error :: "world \<Rightarrow> string list \<Rightarrow> int \<Rightarrow> exn" where
  \<comment> \<open>the \<^verbatim>\<open>CalledProcessError\<close> of \<^verbatim>\<open>check=True\<close> and its text\<close>
  "called_process_error w cmd rc =
     OtherException
       (''Command '' @ [CHR 0x27] @ py_repr_strs cmd @ [CHR 0x27] @
        (if rc < 0 then
           (case signal_name w (nat (- rc)) of
              Some n \<Rightarrow> '' died with <Signals.'' @ n @ '': '' @ str_nat (nat (- rc)) @ ''>.''
            | None \<Rightarrow> '' died with unknown signal '' @ str_nat (nat (- rc)) @ ''.'')
         else '' returned non-zero exit status '' @ str_int rc @ ''.''))"

definition run_checked :: "world \<Rightarrow> string list \<Rightarrow> unit act" where
  \<comment> \<open>\<^verbatim>\<open>subprocess.run(cmd, check=True)\<close>\<close>
  "run_checked w cmd =
     bnd (subprocess_run w Attached cmd) (\<lambda>(rc, out, err).
       if rc \<noteq> 0 then raise (called_process_error w cmd rc) else ret ())"

definition make_dir :: "world \<Rightarrow> string \<Rightarrow> unit act" where
  \<comment> \<open>\<^verbatim>\<open>d.mkdir(parents=True, exist_ok=True)\<close>\<close>
  "make_dir w d = (\<lambda>s.
     let s' = s\<lparr>trace := trace s @ [Make_dir d]\<rparr>
     in case mkdir_at w (now s) d of None \<Rightarrow> (Inr (), s') | Some e \<Rightarrow> (Inl e, s'))"

definition import_libs :: "world \<Rightarrow> unit act" where
  \<comment> \<open>\<^verbatim>\<open>import requests, zipfile\<close>\<close>
  "import_libs w = (\<lambda>s. case import_at w (now s) of None \<Rightarrow> (Inr (), s) | Some e \<Rightarrow> (Inl e, s))"

definition fetch :: "world \<Rightarrow> string \<Rightarrow> string \<Rightarrow> unit act" where
  \<comment> \<open>the download of the archive into the directory and its extraction there\<close>
  "fetch w url d = (\<lambda>s.
     let s' = s\<lparr>trace := trace s @ [Download url d]\<rparr>
     in case fetch_at w (now s) url d of None \<Rightarrow> (Inr (), s') | Some e \<Rightarrow> (Inl e, s'))"

definition catching :: "'a act \<Rightarrow> (exn \<Rightarrow> 'a act) \<Rightarrow> 'a act" where
  \<comment> \<open>\<^verbatim>\<open>try: m except Exception as e: h(e)\<close>\<close>
  "catching m h = (\<lambda>s.
     case m s of
       (Inl e, s') \<Rightarrow> if is_Exception e then h e s' else (Inl e, s')
     | (Inr x, s') \<Rightarrow> (Inr x, s'))"

section \<open>Utility functions of \<^verbatim>\<open>adb.py\<close>\<close>

definition path_join :: "world \<Rightarrow> string \<Rightarrow> string \<Rightarrow> string" where
  \<comment> \<open>\<^verbatim>\<open>str(a / b)\<close> for a relative name \<open>b\<close>: the separator is the backslash on Windows\<close>
  "path_join w a b = a @ (if os_nt w then [CHR 0x5C] else ''/'') @ b"

definition adb_exe :: "world \<Rightarrow> string" where
  "adb_exe w = (if os_nt w then ''adb.exe'' else ''adb'')"

definition adb_cache_path :: "world \<Rightarrow> string" where
  \<comment> \<open>\<^verbatim>\<open>APP_ROOT / "platform-tools" / exe\<close>\<close>
  "adb_cache_path w = path_join w (path_join w (app_root w) ''platform-tools'') (adb_exe w)"

definition which_adb :: "world \<Rightarrow> nat \<Rightarrow> string" where
  \<comment> \<open>the search path first, then the cache directory, then the bare name\<close>
  "which_adb w t =
     (case which_at w t (adb_exe w) of
        Some found \<Rightarrow> found
      | None \<Rightarrow> if exists_at w t (adb_cache_path w) then adb_cache_path w else adb_exe w)"

definition tool_missing_text :: string where
  "tool_missing_text = ''ADB tidak ditemukan. Pastikan adb terpasang atau unduh otomatis.''"

definition run_adb :: "world \<Rightarrow> string list \<Rightarrow> (int \<times> string \<times> string) act" where
  "run_adb w args = (\<lambda>s.
     case subprocess_run w Captured (which_adb w (now s) # args) s of
       (Inr (rc, out, err), s') \<Rightarrow> (Inr (rc, strip out, strip err), s')
     | (Inl (FileNotFoundError m), s') \<Rightarrow> (Inl (FileNotFoundError tool_missing_text), s')
     | (Inl e, s') \<Rightarrow> if is_Exception e then (Inr (1, [], exn_str e), s') else (Inl e, s'))"

definition get_os_tag :: "world \<Rightarrow> string" where
  "get_os_tag w =
     (let system = lower (platform_system w)
      in if startswith system ''win'' then ''windows''
         else if system = ''darwin'' then ''darwin''
         else if system = ''linux'' then ''linux''
         else system)"

definition ensure_adb :: "world \<Rightarrow> string act" where
  "ensure_adb w = (\<lambda>s.
     let exe = which_adb w (now s)
     in case which_at w (now s) exe of
          Some _ \<Rightarrow> (Inr exe, s)
        | None \<Rightarrow>
            if exists_at w (now s) (adb_cache_path w) then (Inr (adb_cache_path w), s)
            else bnd (console_print
                   ''[yellow]ADB tidak ditemukan. Silakan pasang manual (platform-tools).[/yellow]'')
                   (\<lambda>_. ret exe) s)"

section \<open>The operations\<close>

definition device_row :: "string \<Rightarrow> string list" where
  \<comment> \<open>a row of the table of \<^verbatim>\<open>list_devices\<close>: the serial and the rest of the line\<close>
  "device_row line =
     (let parts = split_max1 line
      in [parts ! 0, if length parts > 1 then parts ! 1 else []])"

definition list_devices :: "world \<Rightarrow> unit act" where
  "list_devices w =
     bnd (run_adb w [''devices'', ''-l'']) (\<lambda>(rc, out, err).
       if rc = 0 then
         emit (Print_table ''ADB Devices'' [''Serial'', ''Info'']
                 (map device_row (filter (\<lambda>line. strip line \<noteq> []) (tl (splitlines out)))))
       else console_print (''[red]Error: '' @ or_else err out @ ''[/red]''))"

definition start_server :: "world \<Rightarrow> unit act" where
  "start_server w =
     bnd (run_adb w [''start-server'']) (\<lambda>(rc, out, err).
       console_print (if rc = 0 then ''[green]'' @ or_else out ''Server started'' @ ''[/green]''
                      else ''[red]'' @ err @ ''[/red]''))"

definition stop_server :: "world \<Rightarrow> unit act" where
  "stop_server w =
     bnd (run_adb w [''kill-server'']) (\<lambda>(rc, out, err).
       console_print (if rc = 0 then ''[green]'' @ or_else out ''Server stopped'' @ ''[/green]''
                      else ''[red]'' @ err @ ''[/red]''))"

definition selectable :: "string \<Rightarrow> bool" where
  \<comment> \<open>the filter of the device selector: \<^verbatim>\<open>line.strip() and "device" in line\<close>\<close>
  "selectable line \<longleftrightarrow> strip line \<noteq> [] \<and> str_in ''device'' line"

definition ready_serials :: "string \<Rightarrow> string list" where
  \<comment> \<open>the serials the device selector offers, from the standard output of the listing\<close>
  "ready_serials out = map (\<lambda>line. str_split line ! 0) (filter selectable (tl (splitlines out)))"

definition numbered :: "string list \<Rightarrow> string list" where
  \<comment> \<open>the lines \<^verbatim>\<open>f"{idx}. {s}"\<close> of \<^verbatim>\<open>enumerate(serials, start=1)\<close>\<close>
  "numbered serials =
     map (\<lambda>(idx, sn). str_nat idx @ ''. '' @ sn) (zip [1 ..< Suc (length serials)] serials)"

definition chosen_serial :: "string list \<Rightarrow> string \<Rightarrow> string" where
  \<comment> \<open>\<^verbatim>\<open>serials[int(choice) - 1]\<close>, and \<^verbatim>\<open>serials[0]\<close> when that raises\<close>
  "chosen_serial serials choice =
     (case py_int choice of
        None \<Rightarrow> serials ! 0
      | Some i \<Rightarrow> (case py_index serials (i - 1) of None \<Rightarrow> serials ! 0 | Some sn \<Rightarrow> sn))"

definition pick_serial_interactive :: "world \<Rightarrow> string option act" where
  "pick_serial_interactive w =
     bnd (run_adb w [''devices'']) (\<lambda>(rc, out, err).
       if rc \<noteq> 0 then
         bnd (console_print (''[red]Error: '' @ or_else err out @ ''[/red]'')) (\<lambda>_. ret None)
       else
         let serials = ready_serials out
         in if serials = [] then
              bnd (console_print ''[red]Tidak ada device tersedia.[/red]'') (\<lambda>_. ret None)
            else if length serials = 1 then ret (Some (serials ! 0))
            else
              bnd (print_all (numbered serials)) (\<lambda>_.
              bnd (prompt_ask ''Pilih device'' (Some ''1'')) (\<lambda>choice.
                ret (Some (chosen_serial serials choice)))))"

definition no_serial :: "string option \<Rightarrow> bool" where
  \<comment> \<open>\<^verbatim>\<open>not serial\<close>\<close>
  "no_serial serial \<longleftrightarrow> serial = None \<or> serial = Some []"

definition pair_device :: "world \<Rightarrow> unit act" where
  "pair_device w =
     bnd (prompt_ask ''Masukkan ip:port untuk pair (contoh 192.168.0.5:37099)'' None) (\<lambda>hostport.
     bnd (prompt_ask ''Masukkan kode PIN'' None) (\<lambda>pin.
     bnd (run_adb w [''pair'', hostport, pin]) (\<lambda>(rc, out, err).
       if rc = 0 \<and> str_in ''Successfully'' out then
         bnd (console_print (''[green]'' @ out @ ''[/green]'')) (\<lambda>_.
         let host = split_colon_first hostport
         in bnd (run_adb w [''connect'', host @ '':5555'']) (\<lambda>(rc2, out2, err2).
              if rc2 = 0 then console_print (''[green]'' @ out2 @ ''[/green]'')
              else console_print
                     (''[yellow]Pair ok, tapi connect gagal:[/yellow] '' @ or_else err2 out2)))
       else console_print (''[red]Pair gagal:[/red] '' @ or_else err out))))"

definition connect_device :: "world \<Rightarrow> unit act" where
  "connect_device w =
     bnd (prompt_ask ''Masukkan host/IP:port'' None) (\<lambda>hostport.
     bnd (run_adb w [''connect'', hostport]) (\<lambda>(rc, out, err).
       if rc = 0 then console_print (''[green]'' @ out @ ''[/green]'')
       else console_print (''[red]Connect gagal:[/red] '' @ or_else err out)))"

definition enable_tcpip :: "world \<Rightarrow> unit act" where
  "enable_tcpip w =
     bnd (prompt_ask ''Masukkan port tcpip (default 5555)'' (Some ''5555'')) (\<lambda>port.
     bnd (run_adb w [''tcpip'', port]) (\<lambda>(rc, out, err).
       if rc = 0 then console_print (''[green]'' @ out @ ''[/green]'')
       else console_print (''[red]Gagal set tcpip:[/red] '' @ or_else err out)))"

definition open_shell :: "world \<Rightarrow> unit act" where
  "open_shell w =
     bnd (pick_serial_interactive w) (\<lambda>serial.
       if no_serial serial then ret ()
       else
         bnd (console_print (''[green]Opening interactive shell to '' @ the serial @
                             ''. Ketik 'exit' untuk keluar.[/green]'')) (\<lambda>_.
         (\<lambda>s. case subprocess_run w Attached [which_adb w (now s), ''-s'', the serial, ''shell''] s of
                 (Inr _, s') \<Rightarrow> (Inr (), s')
               | (Inl KeyboardInterrupt, s') \<Rightarrow>
                   console_print (CHR 0x0A # ''[yellow]Shell interrupted by user.[/yellow]'') s'
               | (Inl e, s') \<Rightarrow>
                   console_print (''[red]Error starting shell:[/red] '' @ exn_str e) s')))"

definition run_command_on_device :: "world \<Rightarrow> unit act" where
  "run_command_on_device w =
     bnd (pick_serial_interactive w) (\<lambda>serial.
       if no_serial serial then ret ()
       else
         bnd (prompt_ask ''Masukkan perintah shell (contoh: ls /sdcard)'' None) (\<lambda>command.
           if command = [] then console_print ''[red]Perintah kosong.[/red]''
           else
             (case shlex_split command of
                Inl m \<Rightarrow> raise (ValueError m)
              | Inr args \<Rightarrow>
                  bnd (run_adb w ([''-s'', the serial, ''shell''] @ args)) (\<lambda>(rc, out, err).
                    if rc = 0 then
                      emit (Print_panel (or_else out ''(no output)'') ''Output'' ''green'')
                    else console_print (''[red]Error:[/red] '' @ or_else err out)))))"

definition install_apk :: "world \<Rightarrow> unit act" where
  "install_apk w =
     bnd (prompt_ask ''Masukkan path ke file APK (lokal)'' None) (\<lambda>apk_path.
     bnd (isfile_now w apk_path) (\<lambda>isfile.
       if apk_path = [] \<or> \<not> isfile then console_print ''[red]File APK tidak ditemukan.[/red]''
       else
         bnd (pick_serial_interactive w) (\<lambda>serial.
           if no_serial serial then ret ()
           else
             bnd (console_print (''[green]Installing '' @ apk_path @ '' to '' @ the serial @
                                 '' ...[/green]'')) (\<lambda>_.
             bnd (run_adb w [''-s'', the serial, ''install'', ''-r'', apk_path]) (\<lambda>(rc, out, err).
               if rc = 0 then console_print (''[green]Install success:[/green]'' @ [CHR 0x0A] @ out)
               else console_print (''[red]Install failed:[/red] '' @ or_else err out))))))"

definition push_file :: "world \<Rightarrow> unit act" where
  "push_file w =
     bnd (prompt_ask ''Path file sumber (PC)'' None) (\<lambda>src.
     bnd (exists_now w src) (\<lambda>ex.
       if src = [] \<or> \<not> ex then console_print ''[red]File sumber tidak ditemukan.[/red]''
       else
         bnd (prompt_ask ''Path tujuan di device (contoh: /sdcard/Download/)'' None) (\<lambda>dst.
         bnd (pick_serial_interactive w) (\<lambda>serial.
           if no_serial serial then ret ()
           else
             bnd (console_print (''[green]Pushing '' @ src @ '' -> '' @ the serial @ '':'' @ dst @
                                 ''[/green]'')) (\<lambda>_.
             bnd (run_adb w [''-s'', the serial, ''push'', src, dst]) (\<lambda>(rc, out, err).
               if rc = 0 then console_print (''[green]Push success:[/green]'' @ [CHR 0x0A] @ out)
               else console_print (''[red]Push failed:[/red] '' @ or_else err out)))))))"

definition pull_file :: "world \<Rightarrow> unit act" where
  "pull_file w =
     bnd (prompt_ask ''Path file di device (contoh: /sdcard/Download/file.txt)'' None) (\<lambda>remote.
       if remote = [] then console_print ''[red]Path remote kosong.[/red]''
       else
         bnd (prompt_ask ''Path tujuan di PC (lokal)'' None) (\<lambda>dst.
           if dst = [] then console_print ''[red]Path tujuan kosong.[/red]''
           else
             bnd (pick_serial_interactive w) (\<lambda>serial.
               if no_serial serial then ret ()
               else
                 bnd (console_print (''[green]Pulling '' @ the serial @ '':'' @ remote @ '' -> '' @
                                     dst @ ''[/green]'')) (\<lambda>_.
                 bnd (run_adb w [''-s'', the serial, ''pull'', remote, dst]) (\<lambda>(rc, out, err).
                   if rc = 0 then
                     console_print (''[green]Pull success:[/green]'' @ [CHR 0x0A] @ out)
                   else console_print (''[red]Pull failed:[/red] '' @ or_else err out))))))"

definition reboot_args :: "string \<Rightarrow> string \<Rightarrow> string list" where
  \<comment> \<open>the list \<^verbatim>\<open>args\<close> of \<^verbatim>\<open>reboot_device\<close>: the mode is appended unless empty or normal\<close>
  "reboot_args serial mode =
     [''-s'', serial, ''reboot''] @ (if mode \<noteq> [] \<and> mode \<noteq> ''normal'' then [mode] else [])"

definition reboot_device :: "world \<Rightarrow> unit act" where
  "reboot_device w =
     bnd (pick_serial_interactive w) (\<lambda>serial.
       if no_serial serial then ret ()
       else
         bnd (prompt_ask ''Mode reboot? (normal/bootloader/recovery)'' (Some ''normal'')) (\<lambda>mode.
         bnd (run_adb w (reboot_args (the serial) mode)) (\<lambda>(rc, out, err).
           if rc = 0 then console_print ''[green]Reboot command sent.[/green]''
           else console_print (''[red]Reboot failed:[/red] '' @ or_else err out))))"

definition disconnect_device :: "world \<Rightarrow> unit act" where
  "disconnect_device w =
     bnd (prompt_ask ''Masukkan host/IP:port untuk disconnect (atau kosong untuk all)'' (Some []))
       (\<lambda>host.
     bnd (if host \<noteq> [] then run_adb w [''disconnect'', host] else run_adb w [''disconnect''])
       (\<lambda>(rc, out, err).
          if rc = 0 then console_print (''[green]'' @ or_else out ''Disconnected.'' @ ''[/green]'')
          else console_print (''[red]Disconnect failed:[/red] '' @ or_else err out)))"

definition help_text :: string where
  "help_text =
     CHR 0x0A # concat (map (\<lambda>l. l @ [CHR 0x0A])
       [''[bold cyan]Panduan Penggunaan Menu ADB[/bold cyan]'',
        [],
        ''1. List devices -> adb devices -l'',
        ''2. Start ADB server -> adb start-server'',
        ''3. Stop ADB server -> adb kill-server'',
        ''4. Pair device -> adb pair <ip:port> <PIN>, lalu script mencoba connect otomatis ke ip:5555'',
        ''5. Connect device -> adb connect <ip:port>'',
        ''6. Enable tcpip -> adb tcpip 5555'',
        ''7. Open shell -> adb -s <serial> shell'',
        ''8. Run command -> adb -s <serial> shell <cmd>'',
        ''9. Install APK -> adb -s <serial> install -r app.apk'',
        ''10. Push file -> adb -s <serial> push <src> <dst>'',
        ''11. Pull file -> adb -s <serial> pull <remote> <local>'',
        ''12. Reboot -> adb -s <serial> reboot [bootloader|recovery]'',
        ''13. Disconnect -> adb disconnect [<ip:port>|all]'',
        ''14. try screen mirroring -> jalankan scrcpy untuk mirror layar device''])"

definition show_help :: "unit act" where
  "show_help = emit (Print_panel help_text ''Help Menu'' ''blue'')"

subsection \<open>The mirroring helper\<close>

definition scrcpy_url :: string where
  "scrcpy_url =
     ''https://github.com/Genymobile/scrcpy/releases/download/v2.7/scrcpy-win64-v2.7.zip''"

definition ensure_scrcpy :: "world \<Rightarrow> string option act" where
  "ensure_scrcpy w =
     (let exe = (if os_nt w then ''scrcpy.exe'' else ''scrcpy'');
          scrcpy_dir = path_join w (app_root w) ''scrcpy'';
          win_path = path_join w (path_join w scrcpy_dir ''scrcpy-win64-v2.7'') ''scrcpy.exe'';
          exe_path = (if os_nt w then win_path else path_join w scrcpy_dir ''scrcpy'')
      in bnd (which_now w exe) (\<lambda>found.
           case found of
             Some f \<Rightarrow> ret (Some f)
           | None \<Rightarrow>
               bnd (exists_now w exe_path) (\<lambda>cached.
                 if cached then ret (Some exe_path)
                 else
                   bnd (console_print
                          ''[yellow]scrcpy tidak ditemukan, mencoba menginstall...[/yellow]'') (\<lambda>_.
                   bnd (make_dir w scrcpy_dir) (\<lambda>_.
                     if get_os_tag w = ''windows'' then
                       bnd (import_libs w) (\<lambda>_.
                       bnd (console_print ''[cyan]Mengunduh scrcpy untuk Windows...[/cyan]'') (\<lambda>_.
                       catching
                         (bnd (fetch w scrcpy_url scrcpy_dir) (\<lambda>_.
                          bnd (exists_now w win_path) (\<lambda>ok.
                            if ok then ret (Some win_path) else ret None)))
                         (\<lambda>e. bnd (console_print (''[red]Gagal download scrcpy: '' @ exn_str e @
                                                    ''[/red]''))
                                (\<lambda>_. ret None))))
                     else if get_os_tag w = ''linux'' then
                       bnd (console_print ''[cyan]Mencoba install scrcpy via apt...[/cyan]'') (\<lambda>_.
                       catching
                         (bnd (subprocess_run w Attached [''sudo'', ''apt-get'', ''update'']) (\<lambda>_.
                          bnd (run_checked w [''sudo'', ''apt-get'', ''install'', ''-y'', ''scrcpy''])
                            (\<lambda>_. which_now w ''scrcpy'')))
                         (\<lambda>e. bnd (console_print (''[red]Gagal install scrcpy di Linux: '' @
                                                    exn_str e @ ''[/red]''))
                                (\<lambda>_. ret None)))
                     else if get_os_tag w = ''darwin'' then
                       bnd (console_print ''[cyan]Mencoba install scrcpy via brew...[/cyan]'') (\<lambda>_.
                       catching
                         (bnd (run_checked w [''brew'', ''install'', ''scrcpy''])
                            (\<lambda>_. which_now w ''scrcpy''))
                         (\<lambda>e. bnd (console_print (''[red]Gagal install scrcpy di macOS: '' @
                                                    exn_str e @ ''[/red]''))
                                (\<lambda>_. ret None)))
                     else ret None)))))"

definition mirror_devices :: "string \<Rightarrow> string list" where
  \<comment> \<open>the lines \<^verbatim>\<open>try_screen_mirroring\<close> counts as devices\<close>
  "mirror_devices out =
     filter (\<lambda>line. str_in ''device'' line \<and> \<not> startswith line ''*'') (tl (splitlines out))"

definition try_screen_mirroring :: "world \<Rightarrow> unit act" where
  "try_screen_mirroring w =
     bnd (ensure_scrcpy w) (\<lambda>scrcpy_path.
       if no_serial scrcpy_path then console_print ''[red]scrcpy tidak tersedia.[/red]''
       else
         bnd (run_adb w [''devices'']) (\<lambda>(rc, out, err).
           if mirror_devices out = [] then
             console_print ''[red]Tidak ada device ADB terhubung.[/red]''
           else
             bnd (console_print ''[green]Menjalankan scrcpy...[/green]'') (\<lambda>_.
             catching
               (bnd (subprocess_run w Attached [the scrcpy_path]) (\<lambda>_. ret ()))
               (\<lambda>e. console_print (''[red]Gagal menjalankan scrcpy: '' @ exn_str e @ ''[/red]'')))))"

section \<open>The menu and the main loop\<close>

definition show_menu :: "unit act" where
  "show_menu =
     emit (Print_table ''[green]ADB Pairing CLI[/green]'' []
       [[''[cyan]1[/cyan]'', ''List devices''],
        [''[cyan]2[/cyan]'', ''Start ADB server''],
        [''[cyan]3[/cyan]'', ''Stop ADB server''],
        [''[cyan]4[/cyan]'', ''Pair device''],
        [''[cyan]5[/cyan]'', ''Connect device''],
        [''[cyan]6[/cyan]'', ''Enable tcpip''],
        [''[cyan]7[/cyan]'', ''Open shell''],
        [''[cyan]8[/cyan]'', ''Run command''],
        [''[cyan]9[/cyan]'', ''Install APK''],
        [''[cyan]10[/cyan]'', ''Push file''],
        [''[cyan]11[/cyan]'', ''Pull file''],
        [''[cyan]12[/cyan]'', ''Reboot device''],
        [''[cyan]13[/cyan]'', ''Disconnect device''],
        [''[cyan]14[/cyan]'', ''try screen mirroring''],
        [''[cyan]15[/cyan]'', ''[cyan]Help[/cyan]''],
        [''[cyan]0[/cyan]'', ''[bold red]Exit[/bold red]'']])"

definition dispatch :: "world \<Rightarrow> string \<Rightarrow> bool act" where
  \<comment> \<open>the body of the \<^verbatim>\<open>try\<close> of the loop; the result tells whether it ran \<^verbatim>\<open>break\<close>\<close>
  "dispatch w choice =
     (if choice = ''1'' then bnd (list_devices w) (\<lambda>_. ret False)
      else if choice = ''2'' then bnd (start_server w) (\<lambda>_. ret False)
      else if choice = ''3'' then bnd (stop_server w) (\<lambda>_. ret False)
      else if choice = ''4'' then bnd (pair_device w) (\<lambda>_. ret False)
      else if choice = ''5'' then bnd (connect_device w) (\<lambda>_. ret False)
      else if choice = ''6'' then bnd (enable_tcpip w) (\<lambda>_. ret False)
      else if choice = ''7'' then bnd (open_shell w) (\<lambda>_. ret False)
      else if choice = ''8'' then bnd (run_command_on_device w) (\<lambda>_. ret False)
      else if choice = ''9'' then bnd (install_apk w) (\<lambda>_. ret False)
      else if choice = ''10'' then bnd (push_file w) (\<lambda>_. ret False)
      else if choice = ''11'' then bnd (pull_file w) (\<lambda>_. ret False)
      else if choice = ''12'' then bnd (reboot_device w) (\<lambda>_. ret False)
      else if choice = ''13'' then bnd (disconnect_device w) (\<lambda>_. ret False)
      else if choice = ''14'' then bnd (try_screen_mirroring w) (\<lambda>_. ret False)
      else if choice = ''15'' then bnd show_help (\<lambda>_. ret False)
      else if choice = ''0'' then
        bnd (confirm_ask ''Yakin mau keluar?'') (\<lambda>yes.
          if yes then bnd (console_print ''[bold]Sampai jumpa![/bold]'') (\<lambda>_. ret True)
          else ret False)
      else bnd (console_print ''[red]Pilihan tidak dikenal.[/red]'') (\<lambda>_. ret False))"

datatype step = Again | Stop | Crash exn

definition cycle :: "world \<Rightarrow> session \<Rightarrow> step \<times> session" where
  \<comment> \<open>one pass of the \<^verbatim>\<open>while True\<close> of \<^verbatim>\<open>main_loop\<close>: go round again, leave the loop, or
      let an exception escape\<close>
  "cycle w s0 =
     (case bnd (emit Clear_screen) (\<lambda>_. bnd show_menu (\<lambda>_.
             prompt_ask (CHR 0x0A # ''[bold]Pilih nomor aksi[/bold]'') (Some ''1''))) s0 of
        (Inl e, s1) \<Rightarrow> (Crash e, s1)
      | (Inr choice, s1) \<Rightarrow>
          (case dispatch w choice s1 of
             (Inl (FileNotFoundError m), s2) \<Rightarrow>
               (Stop, snd (console_print (''[red]'' @ m @ ''[/red]'') s2))
           | (Inl KeyboardInterrupt, s2) \<Rightarrow>
               (Stop, snd (console_print (CHR 0x0A # ''[yellow]Dibatalkan oleh user.[/yellow]'') s2))
           | (Inl e, s2) \<Rightarrow> (Crash e, s2)
           | (Inr True, s2) \<Rightarrow> (Stop, s2)
           | (Inr False, s2) \<Rightarrow>
               (case bnd (console_print
                            (CHR 0x0A # ''[dim]Tekan Enter untuk kembali ke menu...[/dim]''))
                         (\<lambda>_. read_line) s2 of
                  (Inr _, s3) \<Rightarrow> (Again, s3)
                | (Inl KeyboardInterrupt, s3) \<Rightarrow>
                    (Stop, snd (console_print
                                  (CHR 0x0A # ''[yellow]Interrupted. Keluar.[/yellow]'') s3))
                | (Inl e, s3) \<Rightarrow> (Crash e, s3))))"

subsection \<open>Every pass of the loop reads from the user\<close>

text \<open>
  The loop of \<^verbatim>\<open>main_loop\<close> has no bound of its own.  It ends on every finite input
  because no operation gives input back and every pass reads the menu choice first: at the
  end of the input the prompt raises \<^verbatim>\<open>EOFError\<close>, which leaves the loop.
\<close>

definition frugal :: "'a act \<Rightarrow> bool" where
  "frugal m \<longleftrightarrow> (\<forall>s. length (inputs (snd (m s))) \<le> length (inputs s))"

named_theorems frugal_intros

lemma frugal_ret [frugal_intros]: "frugal (ret x)"
  by (simp add: frugal_def ret_def)

lemma frugal_raise [frugal_intros]: "frugal (raise e)"
  by (simp add: frugal_def raise_def)

lemma frugal_emit [frugal_intros]: "frugal (emit ev)"
  by (simp add: frugal_def emit_def)

lemma frugal_bnd [frugal_intros]:
  assumes "frugal m" and "\<And>x. frugal (f x)"
  shows "frugal (bnd m f)"
proof -
  have "length (inputs (snd (bnd m f s))) \<le> length (inputs s)" for s
  proof (cases "m s")
    case (Pair r s')
    from assms(1) have le: "length (inputs s') \<le> length (inputs s)"
      using Pair by (auto simp: frugal_def dest: spec [of _ s])
    show ?thesis
    proof (cases r)
      case (Inl e)
      with Pair le show ?thesis by (simp add: bnd_def)
    next
      case (Inr x)
      from assms(2) [of x] have "length (inputs (snd (f x s'))) \<le> length (inputs s')"
        by (simp add: frugal_def)
      with Pair Inr le show ?thesis by (simp add: bnd_def)
    qed
  qed
  then show ?thesis by (simp add: frugal_def)
qed

lemma frugal_catching [frugal_intros]:
  assumes "frugal m" and "\<And>e. frugal (h e)"
  shows "frugal (catching m h)"
proof -
  have "length (inputs (snd (catching m h s))) \<le> length (inputs s)" for s
  proof (cases "m s")
    case (Pair r s')
    from assms(1) have le: "length (inputs s') \<le> length (inputs s)"
      using Pair by (auto simp: frugal_def dest: spec [of _ s])
    show ?thesis
    proof (cases r)
      case (Inl e)
      from assms(2) [of e] have "length (inputs (snd (h e s'))) \<le> length (inputs s')"
        by (simp add: frugal_def)
      with Pair Inl le show ?thesis by (simp add: catching_def)
    next
      case (Inr x)
      with Pair le show ?thesis by (simp add: catching_def)
    qed
  qed
  then show ?thesis by (simp add: frugal_def)
qed

lemma frugal_if [frugal_intros]: "frugal a \<Longrightarrow> frugal b \<Longrightarrow> frugal (if c then a else b)"
  by simp

lemma frugal_case_prod [frugal_intros]:
  "(\<And>a b. frugal (f a b)) \<Longrightarrow> frugal (case p of (a, b) \<Rightarrow> f a b)"
  by (cases p) simp

lemma frugal_case_option [frugal_intros]:
  "frugal a \<Longrightarrow> (\<And>x. frugal (f x)) \<Longrightarrow> frugal (case v of None \<Rightarrow> a | Some x \<Rightarrow> f x)"
  by (cases v) simp_all

lemma frugal_case_sum [frugal_intros]:
  "(\<And>x. frugal (f x)) \<Longrightarrow> (\<And>y. frugal (g y)) \<Longrightarrow> frugal (case v of Inl x \<Rightarrow> f x | Inr y \<Rightarrow> g y)"
  by (cases v) simp_all

lemma frugal_console_print [frugal_intros]: "frugal (console_print t)"
  by (simp add: console_print_def frugal_emit)

lemma frugal_print_all [frugal_intros]: "frugal (print_all ts)"
  by (induction ts) (auto intro: frugal_intros)

lemma frugal_prompt_ask [frugal_intros]: "frugal (prompt_ask p d)"
  by (auto simp: frugal_def prompt_ask_def Let_def split: list.splits key.splits)

lemma frugal_read_line [frugal_intros]: "frugal read_line"
  by (auto simp: frugal_def read_line_def Let_def split: list.splits key.splits)

lemma confirm_keys_length: "length (fst (snd (confirm_keys p ks tr))) \<le> length ks"
  by (induction p ks tr rule: confirm_keys.induct) (auto simp: Let_def intro: le_SucI)

lemma frugal_confirm_ask [frugal_intros]: "frugal (confirm_ask p)"
proof -
  have "length (inputs (snd (confirm_ask p s))) \<le> length (inputs s)" for s
    using confirm_keys_length [of p "inputs s" "trace s"]
    by (cases "confirm_keys p (inputs s) (trace s)") (auto simp: confirm_ask_def)
  then show ?thesis by (simp add: frugal_def)
qed

lemma frugal_which_now [frugal_intros]: "frugal (which_now w exe)"
  by (simp add: frugal_def which_now_def)

lemma frugal_exists_now [frugal_intros]: "frugal (exists_now w p)"
  by (simp add: frugal_def exists_now_def)

lemma frugal_isfile_now [frugal_intros]: "frugal (isfile_now w p)"
  by (simp add: frugal_def isfile_now_def)

lemma frugal_subprocess_run [frugal_intros]: "frugal (subprocess_run w m cmd)"
  by (simp add: frugal_def subprocess_run_def)

lemma frugal_run_checked [frugal_intros]: "frugal (run_checked w cmd)"
  unfolding run_checked_def by (intro frugal_intros)

lemma frugal_make_dir [frugal_intros]: "frugal (make_dir w d)"
  by (auto simp: frugal_def make_dir_def Let_def split: option.splits)

lemma frugal_import_libs [frugal_intros]: "frugal (import_libs w)"
  by (auto simp: frugal_def import_libs_def split: option.splits)

lemma frugal_fetch [frugal_intros]: "frugal (fetch w url d)"
  by (auto simp: frugal_def fetch_def Let_def split: option.splits)

lemma frugal_run_adb [frugal_intros]: "frugal (run_adb w args)"
  by (auto simp: frugal_def run_adb_def subprocess_run_def split: sum.splits exn.splits)

lemma frugal_pick_serial_interactive [frugal_intros]: "frugal (pick_serial_interactive w)"
  unfolding pick_serial_interactive_def Let_def by (intro frugal_intros)

lemma frugal_list_devices [frugal_intros]: "frugal (list_devices w)"
  unfolding list_devices_def by (intro frugal_intros)

lemma frugal_start_server [frugal_intros]: "frugal (start_server w)"
  unfolding start_server_def by (intro frugal_intros)

lemma frugal_stop_server [frugal_intros]: "frugal (stop_server w)"
  unfolding stop_server_def by (intro frugal_intros)

lemma frugal_pair_device [frugal_intros]: "frugal (pair_device w)"
  unfolding pair_device_def Let_def by (intro frugal_intros)

lemma frugal_connect_device [frugal_intros]: "frugal (connect_device w)"
  unfolding connect_device_def by (intro frugal_intros)

lemma frugal_enable_tcpip [frugal_intros]: "frugal (enable_tcpip w)"
  unfolding enable_tcpip_def by (intro frugal_intros)

lemma frugal_open_shell [frugal_intros]: "frugal (open_shell w)"
proof -
  have inner: "frugal (\<lambda>s. case subprocess_run w Attached [which_adb w (now s), ''-s'', sn, ''shell''] s of
                  (Inr x, s') \<Rightarrow> (Inr (), s')
                | (Inl KeyboardInterrupt, s') \<Rightarrow> console_print a s'
                | (Inl e, s') \<Rightarrow> console_print (b e) s')" for sn a b
    by (auto simp: frugal_def subprocess_run_def console_print_def emit_def
             split: sum.splits exn.splits)
  show ?thesis
    unfolding open_shell_def by (intro frugal_intros inner)
qed

lemma frugal_run_command_on_device [frugal_intros]: "frugal (run_command_on_device w)"
  unfolding run_command_on_device_def by (intro frugal_intros)

lemma frugal_install_apk [frugal_intros]: "frugal (install_apk w)"
  unfolding install_apk_def by (intro frugal_intros)

lemma frugal_push_file [frugal_intros]: "frugal (push_file w)"
  unfolding push_file_def by (intro frugal_intros)

lemma frugal_pull_file [frugal_intros]: "frugal (pull_file w)"
  unfolding pull_file_def by (intro frugal_intros)

lemma frugal_reboot_device [frugal_intros]: "frugal (reboot_device w)"
  unfolding reboot_device_def by (intro frugal_intros)

lemma frugal_disconnect_device [frugal_intros]: "frugal (disconnect_device w)"
  unfolding disconnect_device_def by (intro frugal_intros)

lemma frugal_show_help [frugal_intros]: "frugal show_help"
  unfolding show_help_def by (intro frugal_intros)

lemma frugal_show_menu [frugal_intros]: "frugal show_menu"
  unfolding show_menu_def by (intro frugal_intros)

lemma frugal_ensure_scrcpy [frugal_intros]: "frugal (ensure_scrcpy w)"
  unfolding ensure_scrcpy_def Let_def by (intro frugal_intros)

lemma frugal_try_screen_mirroring [frugal_intros]: "frugal (try_screen_mirroring w)"
  unfolding try_screen_mirroring_def by (intro frugal_intros)

lemma frugal_dispatch [frugal_intros]: "frugal (dispatch w choice)"
  unfolding dispatch_def by (intro frugal_intros)

lemma frugalD: "frugal m \<Longrightarrow> m s = (r, s') \<Longrightarrow> length (inputs s') \<le> length (inputs s)"
  by (auto simp: frugal_def dest: spec [of _ s])

lemma prompt_ask_consumes:
  "prompt_ask p d s = (Inr x, s') \<Longrightarrow> length (inputs s') < length (inputs s)"
  by (auto simp: prompt_ask_def Let_def split: list.splits key.splits)

lemma cycle_again_consumes:
  assumes "cycle w s = (Again, s')"
  shows "length (inputs s') < length (inputs s)"
proof -
  define s0 where "s0 = snd (bnd (emit Clear_screen) (\<lambda>_. show_menu) s)"
  have s0: "inputs s0 = inputs s"
    by (simp add: s0_def bnd_def emit_def show_menu_def)
  have head: "bnd (emit Clear_screen) (\<lambda>_. bnd show_menu (\<lambda>_. prompt_ask p d)) s = prompt_ask p d s0"
    for p d
    by (simp add: s0_def bnd_def emit_def show_menu_def)
  obtain r1 s1 where p1: "prompt_ask (CHR 0x0A # ''[bold]Pilih nomor aksi[/bold]'') (Some ''1'') s0 = (r1, s1)"
    by (cases "prompt_ask (CHR 0x0A # ''[bold]Pilih nomor aksi[/bold]'') (Some ''1'') s0")
  from assms p1 obtain choice where r1: "r1 = Inr choice"
    by (cases r1) (auto simp: cycle_def head)
  from p1 r1 have lt: "length (inputs s1) < length (inputs s)"
    using prompt_ask_consumes s0 by fastforce
  obtain r2 s2 where p2: "dispatch w choice s1 = (r2, s2)"
    by (cases "dispatch w choice s1")
  have le2: "length (inputs s2) \<le> length (inputs s1)"
    using frugalD [OF frugal_dispatch p2] .
  from assms p1 r1 p2 have r2: "r2 = Inr False"
    by (auto simp: cycle_def head split: sum.splits exn.splits bool.splits)
  define pause where
    "pause = bnd (console_print (CHR 0x0A # ''[dim]Tekan Enter untuk kembali ke menu...[/dim]''))
               (\<lambda>_. read_line)"
  have fp: "frugal pause"
    unfolding pause_def by (intro frugal_intros)
  obtain r3 s3 where p3: "pause s2 = (r3, s3)"
    by (cases "pause s2")
  have le3: "length (inputs s3) \<le> length (inputs s2)"
    using frugalD [OF fp p3] .
  from assms p1 r1 p2 r2 p3 have "s' = s3"
    by (auto simp: cycle_def head pause_def split: sum.splits exn.splits)
  with lt le2 le3 show ?thesis by simp
qed

function cycles :: "world \<Rightarrow> session \<Rightarrow> exn option \<times> session" where
  \<comment> \<open>the \<^verbatim>\<open>while True\<close> loop: \<open>None\<close> when the loop is left by \<^verbatim>\<open>break\<close>, the exception
      when one escapes\<close>
  "cycles w s =
     (case cycle w s of
        (Again, s') \<Rightarrow> cycles w s'
      | (Stop, s') \<Rightarrow> (None, s')
      | (Crash e, s') \<Rightarrow> (Some e, s'))"
  by pat_completeness auto
termination cycles
  by (relation "measure (\<lambda>(w, s). length (inputs s))")
    (auto dest: cycle_again_consumes [OF sym])

declare cycles.simps [simp del]

definition main_loop :: "world \<Rightarrow> session \<Rightarrow> exn option \<times> session" where
  "main_loop w s =
     (case ensure_adb w s of
        (Inl e, s') \<Rightarrow> (Some e, s')
      | (Inr _, s') \<Rightarrow> cycles w s')"

lemma cycles_Again: "cycle w s = (Again, s') \<Longrightarrow> cycles w s = cycles w s'"
  by (subst cycles.simps) simp

lemma cycles_Stop: "cycle w s = (Stop, s') \<Longrightarrow> cycles w s = (None, s')"
  by (subst cycles.simps) simp

lemma cycles_Crash: "cycle w s = (Crash e, s') \<Longrightarrow> cycles w s = (Some e, s')"
  by (subst cycles.simps) simp

section \<open>Notions used by the properties\<close>

definition bridge_calls :: "session \<Rightarrow> string list list" where
  \<comment> \<open>the command lines launched with captured output: \<^verbatim>\<open>run_adb\<close> is the only function
      that captures, so these are the invocations of the bridge through \<^verbatim>\<open>run_adb\<close>\<close>
  "bridge_calls s = map snd (filter (\<lambda>(m, cmd). m = Captured) (launches s))"

definition bridge_absent :: "world \<Rightarrow> bool" where
  \<comment> \<open>the bridge is neither on the search path nor in the cache directory, at any time, and
      launching its bare name fails with \<^verbatim>\<open>FileNotFoundError\<close>\<close>
  "bridge_absent w \<longleftrightarrow>
     (\<forall>t. which_at w t (adb_exe w) = None \<and> \<not> exists_at w t (adb_cache_path w)) \<and>
     (\<forall>t args. \<exists>m. run_at w t (adb_exe w # args) = Inl (FileNotFoundError m))"

definition tool_missing :: exn where
  \<comment> \<open>the exception \<^verbatim>\<open>run_adb\<close> raises when the bridge cannot be launched\<close>
  "tool_missing = FileNotFoundError tool_missing_text"

subsection \<open>Sample environments\<close>

definition adb_lines :: "string list \<Rightarrow> string" where
  \<comment> \<open>an output of the bridge, line by line\<close>
  "adb_lines ls = concat (map (\<lambda>l. l @ [CHR 0x0A]) ls)"

definition nothing_there :: "nat \<Rightarrow> string \<Rightarrow> bool" where
  \<comment> \<open>a file system on which no path asked for exists\<close>
  "nothing_there t p \<longleftrightarrow> False"

definition linux_world :: "(string list \<Rightarrow> exn + (int \<times> string \<times> string)) \<Rightarrow> world" where
  \<comment> \<open>a Linux machine with the bridge installed as \<^verbatim>\<open>/usr/bin/adb\<close>; the argument says how
      the bridge answers its arguments\<close>
  "linux_world bridge =
     \<lparr>os_nt = False, platform_system = ''Linux'', app_root = ''/home/user/.adb_cli'',
      which_at = (\<lambda>t exe. if exe = ''adb'' \<or> exe = ''/usr/bin/adb'' then Some ''/usr/bin/adb''
                           else None),
      exists_at = nothing_there, isfile_at = nothing_there,
      run_at = (\<lambda>t cmd. case cmd of
                  [] \<Rightarrow> Inl (FileNotFoundError [])
                | exe # args \<Rightarrow>
                    if exe = ''/usr/bin/adb'' then bridge args else Inl (FileNotFoundError exe)),
      mkdir_at = (\<lambda>t p. None), import_at = (\<lambda>t. None), fetch_at = (\<lambda>t u d. None),
      signal_name = (\<lambda>n. None)\<rparr>"

definition listing_world :: "string list \<Rightarrow> world" where
  \<comment> \<open>the bridge lists the given lines after the header and fails every other command\<close>
  "listing_world ls = linux_world (\<lambda>args.
     if args = [''devices''] then Inr (0, adb_lines (''List of devices attached'' # ls), [])
     else Inr (1, [], ''error: closed''))"

definition one_device :: world where
  "one_device = listing_world [''emulator-5554'' @ [CHR 0x09] @ ''device'']"

definition three_devices :: world where
  "three_devices = listing_world
     [''emulator-5554'' @ [CHR 0x09] @ ''device'',
      ''R58M12345'' @ [CHR 0x09] @ ''device'',
      ''192.168.0.5:5555'' @ [CHR 0x09] @ ''device'']"

definition no_device :: world where
  "no_device = listing_world [''R58M12345'' @ [CHR 0x09] @ ''offline'']"

definition banner_one_device :: world where
  \<comment> \<open>one device in state \<^verbatim>\<open>device\<close>, listed after a banner line\<close>
  "banner_one_device = listing_world
     [''* daemon started, waiting for device *'',
      ''emulator-5554'' @ [CHR 0x09] @ ''device'']"

definition lone_unauthorized :: world where
  \<comment> \<open>no device in state \<^verbatim>\<open>device\<close>: the only one attached is unauthorized\<close>
  "lone_unauthorized = listing_world [''testdevice01'' @ [CHR 0x09] @ ''unauthorized'']"

definition banner_world :: world where
  \<comment> \<open>a listing with a banner line and an unauthorized device, both containing the letters
      \<^verbatim>\<open>device\<close>\<close>
  "banner_world = listing_world
     [''* daemon started, waiting for device *'',
      ''testdevice01'' @ [CHR 0x09] @ ''unauthorized'',
      ''emulator-5554'' @ [CHR 0x09] @ ''device'']"

definition pairing_world :: world where
  \<comment> \<open>pairing succeeds, the connection that follows is refused\<close>
  "pairing_world = linux_world (\<lambda>args.
     if args = [''pair'', ''192.168.0.5:37099'', ''123456''] then
       Inr (0, adb_lines [''Successfully paired to 192.168.0.5:37099''], [])
     else Inr (1, [], adb_lines [''failed to connect to 192.168.0.5:5555'']))"

definition no_bridge :: world where
  \<comment> \<open>a Linux machine without the bridge\<close>
  "no_bridge =
     \<lparr>os_nt = False, platform_system = ''Linux'', app_root = ''/home/user/.adb_cli'',
      which_at = (\<lambda>t exe. None),
      exists_at = nothing_there, isfile_at = nothing_there,
      run_at = (\<lambda>t cmd. Inl (FileNotFoundError ''[Errno 2] No such file or directory'')),
      mkdir_at = (\<lambda>t p. None), import_at = (\<lambda>t. None), fetch_at = (\<lambda>t u d. None),
      signal_name = (\<lambda>n. None)\<rparr>"

definition listing_of :: "string list \<Rightarrow> string" where
  \<comment> \<open>what \<^verbatim>\<open>run_adb\<close> returns as standard output in \<open>listing_world\<close>\<close>
  "listing_of ls = strip (adb_lines (''List of devices attached'' # ls))"

definition three_listing :: string where
  "three_listing = listing_of
     [''emulator-5554'' @ [CHR 0x09] @ ''device'',
      ''R58M12345'' @ [CHR 0x09] @ ''device'',
      ''192.168.0.5:5555'' @ [CHR 0x09] @ ''device'']"

definition session_of :: "string list \<Rightarrow> session" where
  \<comment> \<open>a fresh session in which the user types the given lines\<close>
  "session_of ls = \<lparr>inputs = map Typed ls, trace = []\<rparr>"

lemmas world_defs =
  linux_world_def listing_world_def one_device_def three_devices_def no_device_def
  banner_world_def banner_one_device_def lone_unauthorized_def pairing_world_def no_bridge_def session_of_def adb_lines_def nothing_there_def

lemmas act_defs =
  bnd_def ret_def raise_def emit_def console_print_def prompt_ask_def read_line_def
  run_adb_def subprocess_run_def which_adb_def adb_exe_def adb_cache_path_def path_join_def
  now_def which_now_def exists_now_def isfile_now_def catching_def Let_def

lemmas text_defs =
  strip_def is_space_def is_linebreak_def splitlines_def selectable_def ready_serials_def
  or_else_def split_colon_first_def

section \<open>Properties\<close>

subsection \<open>Shared facts\<close>

lemma run_adb_state:
  "run_adb w args s = (r, s') \<Longrightarrow>
     s' = s\<lparr>trace := trace s @ [Launch Captured (which_adb w (now s) # args)]\<rparr>"
  by (auto simp: run_adb_def subprocess_run_def split: sum.splits exn.splits if_splits)

lemma launches_snoc:
  "launches (s\<lparr>trace := trace s @ [ev]\<rparr>) =
     launches s @ (case ev of Launch m cmd \<Rightarrow> [(m, cmd)] | _ \<Rightarrow> [])"
  by (simp add: launches_def)

lemma launches_print [simp]: "launches (snd (console_print t s)) = launches s"
  by (simp add: console_print_def emit_def launches_def)

lemma print_all_state: "print_all ts s = (Inr (), s\<lparr>trace := trace s @ map Print ts\<rparr>)"
  by (induction ts arbitrary: s) (simp_all add: ret_def bnd_def console_print_def emit_def)

lemma one_device_pick:
  "pick_serial_interactive one_device (session_of ls) =
     (Inr (Some ''emulator-5554''),
      \<lparr>inputs = map Typed ls, trace = [Launch Captured [''/usr/bin/adb'', ''devices'']]\<rparr>)"
  by (simp add: pick_serial_interactive_def world_defs act_defs text_defs)

subsection \<open>Reboot\<close>

text \<open>
  Claim C8.  Whenever \<^verbatim>\<open>reboot_device\<close> has a serial and a mode, it hands the bridge the
  three tokens \<^verbatim>\<open>-s <serial> reboot\<close> when the mode is empty or \<^verbatim>\<open>normal\<close>, and the four
  tokens \<^verbatim>\<open>-s <serial> reboot <mode>\<close> for every other mode; this is the only launch after
  the prompt.
\<close>

theorem reboot_argument_list:
  assumes "pick_serial_interactive w s = (Inr (Some serial), s1)" and "serial \<noteq> []"
    and "prompt_ask ''Mode reboot? (normal/bootloader/recovery)'' (Some ''normal'') s1 = (Inr mode, s2)"
  shows "launches (snd (reboot_device w s)) =
           launches s2 @ [(Captured, which_adb w (now s2) # reboot_args serial mode)]
       \<and> reboot_args serial mode =
           (if mode = [] \<or> mode = ''normal'' then [''-s'', serial, ''reboot'']
            else [''-s'', serial, ''reboot'', mode])
       \<and> length (reboot_args serial mode) = (if mode = [] \<or> mode = ''normal'' then 3 else 4)"
proof -
  obtain r s3 where run: "run_adb w (reboot_args serial mode) s2 = (r, s3)"
    by (cases "run_adb w (reboot_args serial mode) s2")
  have s3: "launches s3 = launches s2 @ [(Captured, which_adb w (now s2) # reboot_args serial mode)]"
    using run_adb_state [OF run] by (simp add: launches_def)
  have "launches (snd (reboot_device w s)) = launches s3"
    using assms run
    by (cases r) (auto simp: reboot_device_def bnd_def no_serial_def)
  with s3 show ?thesis by (simp add: reboot_args_def)
qed

theorem reboot_argument_list_witness:
  "launches (snd (reboot_device one_device (session_of [''recovery'']))) =
     [(Captured, [''/usr/bin/adb'', ''devices'']),
      (Captured, [''/usr/bin/adb'', ''-s'', ''emulator-5554'', ''reboot'', ''recovery''])]
   \<and> length (reboot_args ''emulator-5554'' ''recovery'') = 4
   \<and> launches (snd (reboot_device one_device (session_of [[]]))) =
     [(Captured, [''/usr/bin/adb'', ''devices'']),
      (Captured, [''/usr/bin/adb'', ''-s'', ''emulator-5554'', ''reboot''])]
   \<and> length (reboot_args ''emulator-5554'' ''normal'') = 3"
proof -
  let ?s1 = "\<lambda>ls. \<lparr>inputs = map Typed ls, trace = [Launch Captured [''/usr/bin/adb'', ''devices'']]\<rparr>"
  let ?s2 = "\<lparr>inputs = [], trace = [Launch Captured [''/usr/bin/adb'', ''devices''],
                 Ask ''Mode reboot? (normal/bootloader/recovery)'']\<rparr>"
  have ne: "''emulator-5554'' \<noteq> []" by simp
  have a: "prompt_ask ''Mode reboot? (normal/bootloader/recovery)'' (Some ''normal'')
             (?s1 [''recovery'']) = (Inr ''recovery'', ?s2)"
    by (simp add: act_defs text_defs)
  have b: "prompt_ask ''Mode reboot? (normal/bootloader/recovery)'' (Some ''normal'')
             (?s1 [[]]) = (Inr ''normal'', ?s2)"
    by (simp add: act_defs text_defs)
  show ?thesis
    using reboot_argument_list [OF one_device_pick ne a]
          reboot_argument_list [OF one_device_pick ne b]
    by (simp add: launches_def now_def which_adb_def adb_exe_def world_defs)
qed

subsection \<open>Disconnect\<close>

text \<open>
  Claim C9.  \<^verbatim>\<open>disconnect_device\<close> launches the bridge once after its prompt: with the single
  token \<^verbatim>\<open>disconnect\<close> when the host it read is empty, and with \<^verbatim>\<open>disconnect <host>\<close>,
  the host unchanged, otherwise.
\<close>

theorem disconnect_argument_list:
  assumes "prompt_ask ''Masukkan host/IP:port untuk disconnect (atau kosong untuk all)'' (Some [])
             s = (Inr host, s1)"
  shows "launches (snd (disconnect_device w s)) =
           launches s1 @ [(Captured, which_adb w (now s1) #
                             (if host = [] then [''disconnect''] else [''disconnect'', host]))]"
proof -
  let ?args = "if host = [] then [''disconnect''] else [''disconnect'', host]"
  obtain r s2 where run: "run_adb w ?args s1 = (r, s2)"
    by (cases "run_adb w ?args s1")
  have s2: "launches s2 = launches s1 @ [(Captured, which_adb w (now s1) # ?args)]"
    using run_adb_state [OF run] by (simp add: launches_def)
  have "launches (snd (disconnect_device w s)) = launches s2"
    using assms run
    by (cases r) (auto simp: disconnect_device_def bnd_def split: if_splits)
  with s2 show ?thesis by simp
qed

theorem disconnect_argument_list_witness:
  "launches (snd (disconnect_device one_device (session_of [[]]))) =
     [(Captured, [''/usr/bin/adb'', ''disconnect''])]
   \<and> launches (snd (disconnect_device one_device (session_of [''192.168.0.5:5555'']))) =
     [(Captured, [''/usr/bin/adb'', ''disconnect'', ''192.168.0.5:5555''])]"
proof -
  let ?p = "''Masukkan host/IP:port untuk disconnect (atau kosong untuk all)''"
  have a: "prompt_ask ?p (Some []) (session_of [[]]) = (Inr [], \<lparr>inputs = [], trace = [Ask ?p]\<rparr>)"
    by (simp add: act_defs text_defs world_defs)
  have b: "prompt_ask ?p (Some []) (session_of [''192.168.0.5:5555'']) =
             (Inr ''192.168.0.5:5555'', \<lparr>inputs = [], trace = [Ask ?p]\<rparr>)"
    by (simp add: act_defs text_defs world_defs)
  show ?thesis
    using disconnect_argument_list [OF a, of one_device]
          disconnect_argument_list [OF b, of one_device]
    by (simp add: launches_def now_def which_adb_def adb_exe_def world_defs)
qed

subsection \<open>The device selector\<close>

lemma prints_map_Print:
  "concat (map ((\<lambda>ev. case ev of Print t \<Rightarrow> [t] | _ \<Rightarrow> []) \<circ> Print) ts) = ts"
  by (induction ts) simp_all

lemma asks_map_Print:
  "concat (map ((\<lambda>ev. case ev of Ask p \<Rightarrow> [p] | _ \<Rightarrow> []) \<circ> Print) ts) = []"
  by (induction ts) simp_all

lemma pick_after_listing:
  assumes "run_adb w [''devices''] s = (Inr (0, out, err), s1)"
  shows "pick_serial_interactive w s =
     (let serials = ready_serials out
      in if serials = [] then
           (Inr None, s1\<lparr>trace := trace s1 @ [Print ''[red]Tidak ada device tersedia.[/red]'']\<rparr>)
         else if length serials = 1 then (Inr (Some (serials ! 0)), s1)
         else bnd (prompt_ask ''Pilih device'' (Some ''1''))
                (\<lambda>choice. ret (Some (chosen_serial serials choice)))
                (s1\<lparr>trace := trace s1 @ map Print (numbered serials)\<rparr>))"
  using assms
  by (simp add: pick_serial_interactive_def bnd_def Let_def print_all_state ret_def
        console_print_def emit_def)

lemma run_adb_inputs: "run_adb w args s = (r, s') \<Longrightarrow> inputs s' = inputs s"
  by (drule run_adb_state) simp

lemma run_adb_asks: "run_adb w args s = (r, s') \<Longrightarrow> asks s' = asks s"
  by (drule run_adb_state) (simp add: asks_def)

lemma run_adb_prints: "run_adb w args s = (r, s') \<Longrightarrow> prints s' = prints s"
  by (drule run_adb_state) (simp add: prints_def)

lemma numbered_nth:
  "i < length serials \<Longrightarrow> numbered serials ! i = str_nat (Suc i) @ ''. '' @ serials ! i"
  by (simp add: numbered_def nth_upt del: upt_Suc)

lemma pick_many:
  assumes "run_adb w [''devices''] s = (Inr (0, out, err), s1)"
    and "length (ready_serials out) > 1"
  shows "fst (pick_serial_interactive w s) =
           (case inputs s of
              [] \<Rightarrow> Inl EOFError
            | CtrlC # ks \<Rightarrow> Inl KeyboardInterrupt
            | Typed l # ks \<Rightarrow>
                Inr (Some (chosen_serial (ready_serials out) (if l = [] then ''1'' else strip l))))"
    and "asks (snd (pick_serial_interactive w s)) = asks s @ [''Pilih device'']"
    and "prints (snd (pick_serial_interactive w s)) = prints s @ numbered (ready_serials out)"
  using assms run_adb_inputs [OF assms(1)] run_adb_asks [OF assms(1)] run_adb_prints [OF assms(1)]
  by (auto simp: pick_after_listing Let_def bnd_def prompt_ask_def ret_def asks_def prints_def
        prints_map_Print asks_map_Print split: list.splits key.splits)

text \<open>
  What the device selector does with the lines its filter keeps, after a listing that exits
  with code 0: with one kept line it returns that serial without showing a prompt or reading
  input; with more than one it prints the serials numbered from 1, shows the selection prompt,
  and a selection \<open>i\<close> between 1 and the number of serials returns the \<open>i\<close>-th of them; with
  none it reports that no device is available and returns nothing.
\<close>

lemma selector_by_offered_count:
  assumes "run_adb w [''devices''] s = (Inr (0, out, err), s1)"
  shows "(length (ready_serials out) = 1 \<longrightarrow>
            fst (pick_serial_interactive w s) = Inr (Some (ready_serials out ! 0)) \<and>
            asks (snd (pick_serial_interactive w s)) = asks s \<and>
            inputs (snd (pick_serial_interactive w s)) = inputs s)
       \<and> (length (ready_serials out) > 1 \<longrightarrow>
            asks (snd (pick_serial_interactive w s)) = asks s @ [''Pilih device''] \<and>
            prints (snd (pick_serial_interactive w s)) = prints s @ numbered (ready_serials out) \<and>
            (\<forall>i < length (ready_serials out).
               numbered (ready_serials out) ! i = str_nat (i + 1) @ ''. '' @ ready_serials out ! i) \<and>
            (\<forall>l ks i. inputs s = Typed l # ks \<and>
               py_int (if l = [] then ''1'' else strip l) = Some i \<and>
               1 \<le> i \<and> i \<le> int (length (ready_serials out)) \<longrightarrow>
               fst (pick_serial_interactive w s) = Inr (Some (ready_serials out ! nat (i - 1)))))
       \<and> (length (ready_serials out) = 0 \<longrightarrow>
            fst (pick_serial_interactive w s) = Inr None \<and>
            prints (snd (pick_serial_interactive w s)) =
              prints s @ [''[red]Tidak ada device tersedia.[/red]''] \<and>
            asks (snd (pick_serial_interactive w s)) = asks s)"
proof (intro conjI impI)
  assume one: "length (ready_serials out) = 1"
  then have ne: "ready_serials out \<noteq> []" by auto
  from one ne show "fst (pick_serial_interactive w s) = Inr (Some (ready_serials out ! 0))"
    by (simp add: pick_after_listing [OF assms] Let_def)
  from one ne show "asks (snd (pick_serial_interactive w s)) = asks s"
    by (simp add: pick_after_listing [OF assms] Let_def run_adb_asks [OF assms])
  from one ne show "inputs (snd (pick_serial_interactive w s)) = inputs s"
    by (simp add: pick_after_listing [OF assms] Let_def run_adb_inputs [OF assms])
next
  assume many: "1 < length (ready_serials out)"
  show "asks (snd (pick_serial_interactive w s)) = asks s @ [''Pilih device'']"
    by (rule pick_many(2) [OF assms many])
  show "prints (snd (pick_serial_interactive w s)) = prints s @ numbered (ready_serials out)"
    by (rule pick_many(3) [OF assms many])
  show "\<forall>i < length (ready_serials out).
          numbered (ready_serials out) ! i = str_nat (i + 1) @ ''. '' @ ready_serials out ! i"
    by (simp add: numbered_nth)
  show "\<forall>l ks i. inputs s = Typed l # ks \<and>
          py_int (if l = [] then ''1'' else strip l) = Some i \<and>
          1 \<le> i \<and> i \<le> int (length (ready_serials out)) \<longrightarrow>
          fst (pick_serial_interactive w s) = Inr (Some (ready_serials out ! nat (i - 1)))"
  proof (intro allI impI, elim conjE)
    fix l ks i
    assume inp: "inputs s = Typed l # ks"
      and parsed: "py_int (if l = [] then ''1'' else strip l) = Some i"
      and lo: "1 \<le> i" and hi: "i \<le> int (length (ready_serials out))"
    from lo hi have "py_index (ready_serials out) (i - 1) = Some (ready_serials out ! nat (i - 1))"
      by (simp add: py_index_def)
    with parsed have "chosen_serial (ready_serials out) (if l = [] then ''1'' else strip l) =
        ready_serials out ! nat (i - 1)"
      by (simp add: chosen_serial_def)
    with pick_many(1) [OF assms many] inp
    show "fst (pick_serial_interactive w s) = Inr (Some (ready_serials out ! nat (i - 1)))"
      by simp
  qed
next
  assume "length (ready_serials out) = 0"
  then have none: "ready_serials out = []" by simp
  from none show "fst (pick_serial_interactive w s) = Inr None"
    by (simp add: pick_after_listing [OF assms] Let_def)
  from none show "prints (snd (pick_serial_interactive w s)) =
      prints s @ [''[red]Tidak ada device tersedia.[/red]'']"
    by (simp add: pick_after_listing [OF assms] Let_def prints_def run_adb_prints [OF assms, unfolded prints_def])
  from none show "asks (snd (pick_serial_interactive w s)) = asks s"
    by (simp add: pick_after_listing [OF assms] Let_def asks_def run_adb_asks [OF assms, unfolded asks_def])
qed

lemma listing_run:
  "run_adb (listing_world ls) [''devices''] (session_of ks) =
     (Inr (0, strip (adb_lines (''List of devices attached'' # ls)), []),
      \<lparr>inputs = map Typed ks, trace = [Launch Captured [''/usr/bin/adb'', ''devices'']]\<rparr>)"
  by (simp add: listing_world_def linux_world_def session_of_def run_adb_def subprocess_run_def
        which_adb_def adb_exe_def now_def strip_def)

lemma one_device_serials:
  "ready_serials (strip (adb_lines [''List of devices attached'', ''emulator-5554'' @ [CHR 0x09] @ ''device''])) = [''emulator-5554'']"
  by (simp add: text_defs adb_lines_def)

lemma three_devices_serials:
  "ready_serials (strip (adb_lines [''List of devices attached'',
      ''emulator-5554'' @ [CHR 0x09] @ ''device'',
      ''R58M12345'' @ [CHR 0x09] @ ''device'',
      ''192.168.0.5:5555'' @ [CHR 0x09] @ ''device''])) = [''emulator-5554'', ''R58M12345'', ''192.168.0.5:5555'']"
  by (simp add: text_defs adb_lines_def)

lemma three_listing_serials:
  "ready_serials three_listing = [''emulator-5554'', ''R58M12345'', ''192.168.0.5:5555'']"
  by (simp add: three_listing_def listing_of_def text_defs adb_lines_def)

lemma three_devices_run:
  "run_adb three_devices [''devices''] (session_of ks) =
     (Inr (0, three_listing, []),
      \<lparr>inputs = map Typed ks, trace = [Launch Captured [''/usr/bin/adb'', ''devices'']]\<rparr>)"
  unfolding three_devices_def three_listing_def listing_of_def by (rule listing_run)

lemma no_device_serials:
  "ready_serials (strip (adb_lines [''List of devices attached'', ''R58M12345'' @ [CHR 0x09] @ ''offline''])) = []"
  by (simp add: text_defs adb_lines_def)

lemma selector_by_offered_count_example:
  "fst (pick_serial_interactive one_device (session_of [''2''])) = Inr (Some ''emulator-5554'')
   \<and> asks (snd (pick_serial_interactive one_device (session_of [''2'']))) = []
   \<and> inputs (snd (pick_serial_interactive one_device (session_of [''2'']))) = [Typed ''2'']
   \<and> asks (snd (pick_serial_interactive three_devices (session_of [''2'']))) = [''Pilih device'']
   \<and> prints (snd (pick_serial_interactive three_devices (session_of [''2'']))) =
        [''1. emulator-5554'', ''2. R58M12345'', ''3. 192.168.0.5:5555'']
   \<and> fst (pick_serial_interactive no_device (session_of [''2''])) = Inr None
   \<and> prints (snd (pick_serial_interactive no_device (session_of [''2'']))) =
        [''[red]Tidak ada device tersedia.[/red]'']"
proof -
  have n3: "numbered [''emulator-5554'', ''R58M12345'', ''192.168.0.5:5555''] =
      [''1. emulator-5554'', ''2. R58M12345'', ''3. 192.168.0.5:5555'']"
    by code_simp
  show ?thesis
    using selector_by_offered_count [OF listing_run, of "[''emulator-5554'' @ [CHR 0x09] @ ''device'']" "[''2'']"]
          selector_by_offered_count [OF listing_run, of "[''emulator-5554'' @ [CHR 0x09] @ ''device'',
              ''R58M12345'' @ [CHR 0x09] @ ''device'', ''192.168.0.5:5555'' @ [CHR 0x09] @ ''device'']" "[''2'']"]
          selector_by_offered_count [OF listing_run, of "[''R58M12345'' @ [CHR 0x09] @ ''offline'']" "[''2'']"]
    unfolding one_device_serials three_devices_serials no_device_serials
    by (simp add: one_device_def three_devices_def no_device_def n3 session_of_def asks_def prints_def)
qed

text \<open>
  Claim C7.  When more than one device is ready and the text read at the selection prompt
  is not a valid index (\<^verbatim>\<open>int\<close> rejects it, or the index it gives is out of range), the
  device selector returns the first listed serial.
\<close>

theorem unparseable_choice_defaults_to_first:
  assumes "run_adb w [''devices''] s = (Inr (0, out, err), s1)"
    and "length (ready_serials out) > 1"
    and "inputs s = Typed l # ks"
    and "choice = (if l = [] then ''1'' else strip l)"
    and "\<not> (\<exists>i sn. py_int choice = Some i \<and> py_index (ready_serials out) (i - 1) = Some sn)"
  shows "fst (pick_serial_interactive w s) = Inr (Some (ready_serials out ! 0))"
proof -
  have "chosen_serial (ready_serials out) choice = ready_serials out ! 0"
    using assms(5) by (auto simp: chosen_serial_def split: option.splits)
  then show ?thesis
    using pick_many(1) [OF assms(1,2)] assms(3,4) by simp
qed

theorem unparseable_choice_defaults_to_first_witness:
  "fst (pick_serial_interactive three_devices (session_of [''two''])) = Inr (Some ''emulator-5554'')
   \<and> fst (pick_serial_interactive three_devices (session_of [''7''])) = Inr (Some ''emulator-5554'')"
proof -
  have len: "length (ready_serials three_listing) > 1"
    by (simp add: three_listing_serials)
  have two: "\<not> (\<exists>i sn. py_int ''two'' = Some i \<and> py_index (ready_serials three_listing) (i - 1) = Some sn)"
    by (simp add: py_int_def is_cspace_def digits_def is_digit_def)
  have seven: "\<not> (\<exists>i sn. py_int ''7'' = Some i \<and> py_index (ready_serials three_listing) (i - 1) = Some sn)"
    by (simp add: three_listing_serials py_int_def is_cspace_def digits_def is_digit_def
          digit_val_def py_index_def)
  have c2: "''two'' = (if ''two'' = [] then ''1'' else strip ''two'')"
    by (simp add: strip_def is_space_def)
  have c7: "''7'' = (if ''7'' = [] then ''1'' else strip ''7'')"
    by (simp add: strip_def is_space_def)
  have i2: "inputs (session_of [''two'']) = Typed ''two'' # []" by (simp add: session_of_def)
  have i7: "inputs (session_of [''7'']) = Typed ''7'' # []" by (simp add: session_of_def)
  show ?thesis
    using unparseable_choice_defaults_to_first [OF three_devices_run len i2 c2 two]
          unparseable_choice_defaults_to_first [OF three_devices_run len i7 c7 seven]
    by (simp add: three_listing_serials)
qed

lemma is_digit_digit_char: "d < 10 \<Longrightarrow> is_digit (digit_char d)"
  by (simp add: is_digit_def digit_char_def)

lemma digit_val_digit_char: "d < 10 \<Longrightarrow> digit_val (digit_char d) = d"
  by (simp add: digit_val_def digit_char_def)

lemma digits_acc_snoc:
  "\<forall>c \<in> set cs. is_digit c \<Longrightarrow> is_digit d \<Longrightarrow>
     digits_acc v (cs @ [d]) = map_option (\<lambda>m. 10 * m + digit_val d) (digits_acc v cs)"
  by (induction cs arbitrary: v) simp_all

lemma str_nat_fuel_digits:
  "n < 10 ^ f \<Longrightarrow> 0 < f \<Longrightarrow>
     \<exists>c cs. str_nat_fuel f n = c # cs \<and> (\<forall>x \<in> set (c # cs). is_digit x)
            \<and> digits_acc (digit_val c) cs = Some n"
proof (induction f arbitrary: n)
  case 0
  then show ?case by simp
next
  case (Suc f)
  show ?case
  proof (cases "n < 10")
    case True
    then show ?thesis
      by (simp add: is_digit_digit_char digit_val_digit_char)
  next
    case False
    from Suc.prems have small: "n div 10 < 10 ^ f"
      by (simp add: less_mult_imp_div_less mult.commute)
    from False have "0 < n div 10" by simp
    with small have pos: "0 < f" by (cases f) simp_all
    from Suc.IH [OF small pos] obtain c cs where
      eq: "str_nat_fuel f (n div 10) = c # cs" and dg: "\<forall>x \<in> set (c # cs). is_digit x"
      and val: "digits_acc (digit_val c) cs = Some (n div 10)"
      by blast
    have d: "is_digit (digit_char (n mod 10))" by (simp add: is_digit_digit_char)
    have "digits_acc (digit_val c) (cs @ [digit_char (n mod 10)]) = Some n"
      using dg d val by (simp add: digits_acc_snoc digit_val_digit_char)
    with False eq dg d show ?thesis by simp
  qed
qed

lemma less_ten_power: "n < 10 ^ Suc n"
proof -
  have "n < 2 ^ n" by (rule less_exp)
  also have "(2::nat) ^ n \<le> 10 ^ n" by (rule power_mono) simp_all
  also have "(10::nat) ^ n \<le> 10 ^ Suc n" by simp
  finally show ?thesis .
qed

lemma str_nat_digits:
  obtains c cs where "str_nat k = c # cs" and "\<forall>x \<in> set (c # cs). is_digit x"
    and "digits (str_nat k) = Some k"
proof -
  from str_nat_fuel_digits [OF less_ten_power [of k]] obtain c cs where
    eq: "str_nat k = c # cs" and dg: "\<forall>x \<in> set (c # cs). is_digit x"
    and val: "digits_acc (digit_val c) cs = Some k"
    unfolding str_nat_def by auto
  from eq dg val have "digits (str_nat k) = Some k" by (simp add: digits_def)
  with eq dg that show ?thesis by blast
qed

lemma digit_not_space: "is_digit c \<Longrightarrow> \<not> is_space c \<and> \<not> is_cspace c"
  by (auto simp: is_digit_def is_space_def is_cspace_def)

lemma trim_keep:
  assumes "xs \<noteq> []" and "\<not> P (hd xs)" and "\<not> P (last xs)"
  shows "rev (dropWhile P (rev (dropWhile P xs))) = xs"
proof -
  from assms(1,2) have a: "dropWhile P xs = xs" by (cases xs) simp_all
  from assms(1,3) have b: "dropWhile P (rev xs) = rev xs"
    by (cases "rev xs") (simp_all add: last_rev [symmetric] hd_rev)
  from a b show ?thesis by simp
qed

lemma minus_decimal:
  "strip (CHR ''-'' # str_nat k) = CHR ''-'' # str_nat k"
  "py_int (CHR ''-'' # str_nat k) = Some (- int k)"
proof -
  obtain c cs where eq: "str_nat k = c # cs" and dg: "\<forall>x \<in> set (c # cs). is_digit x"
    and val: "digits (str_nat k) = Some k"
    by (rule str_nat_digits)
  let ?t = "CHR ''-'' # str_nat k"
  have "last (str_nat k) \<in> set (str_nat k)"
    using eq by (intro last_in_set) simp
  with eq dg have "is_digit (last (str_nat k))" by auto
  with eq have lastd: "is_digit (last ?t)" by simp
  have h1: "\<not> is_space (hd ?t)" "\<not> is_cspace (hd ?t)"
    by (simp_all add: is_space_def is_cspace_def)
  have l1: "\<not> is_space (last ?t)" "\<not> is_cspace (last ?t)"
    using digit_not_space [OF lastd] by simp_all
  show "strip ?t = ?t"
    unfolding strip_def by (rule trim_keep) (use h1 l1 in simp_all)
  have "rev (dropWhile is_cspace (rev (dropWhile is_cspace ?t))) = ?t"
    by (rule trim_keep) (use h1 l1 in simp_all)
  then show "py_int ?t = Some (- int k)"
    by (simp add: py_int_def val)
qed

lemma zero_choice: "strip ''0'' = ''0''" "py_int ''0'' = Some 0"
  by (simp_all add: strip_def is_space_def py_int_def is_cspace_def digits_def is_digit_def digit_val_def)

text \<open>
  Claim C10.  When \<open>n > 1\<close> devices are ready, the selection \<^verbatim>\<open>0\<close> returns the last listed
  serial, and the selection \<^verbatim>\<open>-k\<close> with \<open>k < n\<close> returns the serial at position \<open>n - k\<close>
  counted from 1 (index \<open>n - k - 1\<close> counted from 0): the index \<^verbatim>\<open>int(choice) - 1\<close> is
  negative and counts from the end of the list.
\<close>

theorem nonpositive_choice_counts_from_end:
  assumes "run_adb w [''devices''] s = (Inr (0, out, err), s1)"
    and "n = length (ready_serials out)" and "n > 1"
  shows "(inputs s = Typed ''0'' # ks \<longrightarrow>
            fst (pick_serial_interactive w s) = Inr (Some (ready_serials out ! (n - 1))))
       \<and> (\<forall>k < n. inputs s = Typed (CHR ''-'' # str_nat k) # ks \<longrightarrow>
            fst (pick_serial_interactive w s) = Inr (Some (ready_serials out ! (n - k - 1))))"
proof (intro conjI allI impI)
  assume "inputs s = Typed ''0'' # ks"
  moreover have "chosen_serial (ready_serials out) ''0'' = ready_serials out ! (n - 1)"
    using assms(2,3) by (simp add: chosen_serial_def zero_choice py_index_def nat_diff_distrib)
  ultimately show "fst (pick_serial_interactive w s) = Inr (Some (ready_serials out ! (n - 1)))"
    using pick_many(1) [OF assms(1)] assms(2,3) by (simp add: zero_choice)
next
  fix k assume k: "k < n" and inp: "inputs s = Typed (CHR ''-'' # str_nat k) # ks"
  have "nat (int n + (- int k - 1)) = n - k - 1" using k by arith
  moreover have "0 \<le> int n + (- int k - 1)" "int n + (- int k - 1) < int n" using k by arith+
  ultimately have "chosen_serial (ready_serials out) (CHR ''-'' # str_nat k) = ready_serials out ! (n - k - 1)"
    using assms(2) k by (simp add: chosen_serial_def minus_decimal py_index_def)
  then show "fst (pick_serial_interactive w s) = Inr (Some (ready_serials out ! (n - k - 1)))"
    using pick_many(1) [OF assms(1)] assms(2,3) inp by (simp add: minus_decimal)
qed

theorem nonpositive_choice_counts_from_end_witness:
  "fst (pick_serial_interactive three_devices (session_of [''0''])) = Inr (Some ''192.168.0.5:5555'')
   \<and> fst (pick_serial_interactive three_devices (session_of [''-1''])) = Inr (Some ''R58M12345'')"
proof -
  have len: "(3::nat) = length (ready_serials three_listing)" "(3::nat) > 1"
    by (simp_all add: three_listing_serials)
  have m1: "CHR ''-'' # str_nat 1 = ''-1''" by code_simp
  have i0: "inputs (session_of [''0'']) = Typed ''0'' # []" by (simp add: session_of_def)
  have i1: "inputs (session_of [''-1'']) = Typed (CHR ''-'' # str_nat 1) # []"
    unfolding m1 by (simp add: session_of_def)
  have k: "(1::nat) < 3" by simp
  from nonpositive_choice_counts_from_end [OF three_devices_run len, of "[''0'']" "[]"] i0
  have a: "fst (pick_serial_interactive three_devices (session_of [''0''])) =
             Inr (Some (ready_serials three_listing ! (3 - 1)))"
    by blast
  from nonpositive_choice_counts_from_end [OF three_devices_run len, of "[''-1'']" "[]"] i1 k
  have b: "fst (pick_serial_interactive three_devices (session_of [''-1''])) =
             Inr (Some (ready_serials three_listing ! (3 - 1 - 1)))"
    by blast
  from a b show ?thesis by (simp add: three_listing_serials)
qed

subsection \<open>Pairing\<close>

lemma prints_print: "prints (snd (console_print t s)) = prints s @ [t]"
  by (simp add: console_print_def emit_def prints_def)

lemma fst_console_print [simp]: "fst (console_print t s) = Inr ()"
  by (simp add: console_print_def emit_def)

lemma run_adb_launches:
  "run_adb w args s = (r, s') \<Longrightarrow>
     launches s' = launches s @ [(Captured, which_adb w (now s) # args)]"
  by (drule run_adb_state) (simp add: launches_def)

text \<open>
  Claim C3.  After the two prompts and the pairing call, \<^verbatim>\<open>pair_device\<close> launches the bridge
  once more exactly when the pairing call returned exit code 0 and its output contains
  \<^verbatim>\<open>Successfully\<close>; that launch is \<^verbatim>\<open>connect <host>:5555\<close> with the host being the text
  before the first colon of what the user gave.  When that connection returns a non-zero
  exit code, the operation still returns normally, having printed the pairing output in green
  and the connection failure as a yellow warning; the red pairing failure is printed only
  when the pairing call itself did not succeed.
\<close>

theorem pair_follow_up:
  assumes "prompt_ask ''Masukkan ip:port untuk pair (contoh 192.168.0.5:37099)'' None s = (Inr hostport, s1)"
    and "prompt_ask ''Masukkan kode PIN'' None s1 = (Inr pin, s2)"
    and "run_adb w [''pair'', hostport, pin] s2 = (Inr (rc, out, err), s3)"
    and "s4 = snd (console_print (''[green]'' @ out @ ''[/green]'') s3)"
  shows "launches (snd (pair_device w s)) =
           launches s3 @
           (if rc = 0 \<and> str_in ''Successfully'' out
            then [(Captured, [which_adb w (now s4), ''connect'',
                              takeWhile (\<lambda>c. c \<noteq> CHR '':'') hostport @ '':5555''])]
            else [])
       \<and> (rc = 0 \<and> str_in ''Successfully'' out \<longrightarrow>
            (\<forall>rc2 out2 err2 s5.
               run_adb w [''connect'', takeWhile (\<lambda>c. c \<noteq> CHR '':'') hostport @ '':5555''] s4 =
                 (Inr (rc2, out2, err2), s5) \<and> rc2 \<noteq> 0 \<longrightarrow>
               fst (pair_device w s) = Inr () \<and>
               prints (snd (pair_device w s)) =
                 prints s3 @ [''[green]'' @ out @ ''[/green]'',
                              ''[yellow]Pair ok, tapi connect gagal:[/yellow] '' @ or_else err2 out2]))
       \<and> (\<not> (rc = 0 \<and> str_in ''Successfully'' out) \<longrightarrow>
            prints (snd (pair_device w s)) = prints s3 @ [''[red]Pair gagal:[/red] '' @ or_else err out])"
proof -
  let ?host = "takeWhile (\<lambda>c. c \<noteq> CHR '':'') hostport @ '':5555''"
  have s4: "console_print (''[green]'' @ out @ ''[/green]'') s3 = (Inr (), s4)"
    by (simp add: assms(4) console_print_def emit_def)
  have l4: "launches s4 = launches s3" by (simp add: assms(4))
  have p4: "prints s4 = prints s3 @ [''[green]'' @ out @ ''[/green]'']" by (simp add: assms(4) prints_print)
  obtain r s5 where run: "run_adb w [''connect'', ?host] s4 = (r, s5)"
    by (cases "run_adb w [''connect'', ?host] s4")
  note l5 = run_adb_launches [OF run]
  note p5 = run_adb_prints [OF run]
  show ?thesis
  proof (cases "rc = 0 \<and> str_in ''Successfully'' out")
    case False
    then have "pair_device w s = console_print (''[red]Pair gagal:[/red] '' @ or_else err out) s3"
      using assms(1-3) by (auto simp: pair_device_def bnd_def)
    with False show ?thesis by (auto simp: prints_print)
  next
    case True
    then have eq: "pair_device w s =
        (case r of Inl e \<Rightarrow> (Inl e, s5)
         | Inr (rc2, out2, err2) \<Rightarrow>
             (if rc2 = 0 then console_print (''[green]'' @ out2 @ ''[/green]'')
              else console_print (''[yellow]Pair ok, tapi connect gagal:[/yellow] '' @ or_else err2 out2)) s5)"
      using assms(1-3) s4 run
      by (auto simp: pair_device_def bnd_def Let_def split_colon_first_def split: sum.splits)
    have "launches (snd (pair_device w s)) = launches s5"
      unfolding eq by (cases r) (auto split: prod.splits)
    moreover have "\<And>rc2 out2 err2 s5'. run_adb w [''connect'', ?host] s4 = (Inr (rc2, out2, err2), s5') \<Longrightarrow> rc2 \<noteq> 0 \<Longrightarrow>
        fst (pair_device w s) = Inr () \<and>
        prints (snd (pair_device w s)) =
          prints s3 @ [''[green]'' @ out @ ''[/green]'',
                       ''[yellow]Pair ok, tapi connect gagal:[/yellow] '' @ or_else err2 out2]"
      using run p5 p4 unfolding eq
      by (auto simp: prints_print)
    ultimately show ?thesis using True l5 l4 by auto
  qed
qed


lemma pairing_prompts:
  "prompt_ask ''Masukkan ip:port untuk pair (contoh 192.168.0.5:37099)'' None
     (session_of [''192.168.0.5:37099'', ''123456'']) =
     (Inr ''192.168.0.5:37099'',
      \<lparr>inputs = [Typed ''123456''],
         trace = [Ask ''Masukkan ip:port untuk pair (contoh 192.168.0.5:37099)'']\<rparr>)"
  "prompt_ask ''Masukkan kode PIN'' None
     \<lparr>inputs = [Typed ''123456''],
        trace = [Ask ''Masukkan ip:port untuk pair (contoh 192.168.0.5:37099)'']\<rparr> =
     (Inr ''123456'',
      \<lparr>inputs = [],
         trace = [Ask ''Masukkan ip:port untuk pair (contoh 192.168.0.5:37099)'',
                  Ask ''Masukkan kode PIN'']\<rparr>)"
  by (simp_all add: prompt_ask_def session_of_def strip_def is_space_def)

lemma pairing_run:
  "run_adb pairing_world [''pair'', ''192.168.0.5:37099'', ''123456'']
     \<lparr>inputs = [],
        trace = [Ask ''Masukkan ip:port untuk pair (contoh 192.168.0.5:37099)'',
                 Ask ''Masukkan kode PIN'']\<rparr> =
     (Inr (0, ''Successfully paired to 192.168.0.5:37099'', []),
      \<lparr>inputs = [],
         trace = [Ask ''Masukkan ip:port untuk pair (contoh 192.168.0.5:37099)'',
                  Ask ''Masukkan kode PIN'',
                  Launch Captured [''/usr/bin/adb'', ''pair'', ''192.168.0.5:37099'', ''123456'']]\<rparr>)"
  by (simp add: pairing_world_def linux_world_def run_adb_def subprocess_run_def which_adb_def
        adb_exe_def now_def strip_def is_space_def adb_lines_def)

theorem pair_follow_up_witness:
  "launches (snd (pair_device pairing_world (session_of [''192.168.0.5:37099'', ''123456'']))) =
     [(Captured, [''/usr/bin/adb'', ''pair'', ''192.168.0.5:37099'', ''123456'']),
      (Captured, [''/usr/bin/adb'', ''connect'', ''192.168.0.5:5555''])]
   \<and> fst (pair_device pairing_world (session_of [''192.168.0.5:37099'', ''123456''])) = Inr ()
   \<and> prints (snd (pair_device pairing_world (session_of [''192.168.0.5:37099'', ''123456'']))) =
     [''[green]Successfully paired to 192.168.0.5:37099[/green]'',
      ''[yellow]Pair ok, tapi connect gagal:[/yellow] failed to connect to 192.168.0.5:5555'']"
proof -
  let ?s3 = "\<lparr>inputs = [],
         trace = [Ask ''Masukkan ip:port untuk pair (contoh 192.168.0.5:37099)'',
                  Ask ''Masukkan kode PIN'',
                  Launch Captured [''/usr/bin/adb'', ''pair'', ''192.168.0.5:37099'', ''123456'']]\<rparr>"
  let ?out = "''Successfully paired to 192.168.0.5:37099''"
  let ?s4 = "snd (console_print (''[green]'' @ ?out @ ''[/green]'') ?s3)"
  have ok: "(0::int) = 0 \<and> str_in ''Successfully'' ?out" by simp
  have run2: "run_adb pairing_world
                [''connect'', takeWhile (\<lambda>c. c \<noteq> CHR '':'') ''192.168.0.5:37099'' @ '':5555''] ?s4 =
              (Inr (1, [], ''failed to connect to 192.168.0.5:5555''),
               ?s4\<lparr>trace := trace ?s4 @ [Launch Captured [''/usr/bin/adb'', ''connect'', ''192.168.0.5:5555'']]\<rparr>)
              \<and> (1::int) \<noteq> 0"
    by (simp add: pairing_world_def linux_world_def run_adb_def subprocess_run_def which_adb_def
          adb_exe_def now_def strip_def is_space_def adb_lines_def console_print_def emit_def)
  have w4: "which_adb pairing_world (now ?s4) = ''/usr/bin/adb''"
    by (simp add: which_adb_def adb_exe_def pairing_world_def linux_world_def)
  from pair_follow_up [OF pairing_prompts pairing_run refl] ok run2 w4
  show ?thesis
    by (simp add: launches_def prints_def or_else_def)
qed

subsection \<open>Validation of local paths\<close>

text \<open>
  Claim C5, as amended.  Install launches nothing when the path it read is empty or is not an
  existing file, and Push launches nothing when the source it read is empty or does not
  exist; Pull launches nothing when the remote path or the local destination it read is
  empty.  In each case the operation ends with the validation message.  (Pull does not look
  for its destination on disk.)
\<close>

theorem local_path_validation:
  shows "(\<forall>apk_path s1.
            prompt_ask ''Masukkan path ke file APK (lokal)'' None s = (Inr apk_path, s1) \<and>
            (apk_path = [] \<or> \<not> isfile_at w (now s1) apk_path) \<longrightarrow>
            launches (snd (install_apk w s)) = launches s \<and>
            install_apk w s = console_print ''[red]File APK tidak ditemukan.[/red]'' s1)
       \<and> (\<forall>src s1.
            prompt_ask ''Path file sumber (PC)'' None s = (Inr src, s1) \<and>
            (src = [] \<or> \<not> exists_at w (now s1) src) \<longrightarrow>
            launches (snd (push_file w s)) = launches s \<and>
            push_file w s = console_print ''[red]File sumber tidak ditemukan.[/red]'' s1)
       \<and> (\<forall>s1.
            prompt_ask ''Path file di device (contoh: /sdcard/Download/file.txt)'' None s = (Inr [], s1) \<longrightarrow>
            launches (snd (pull_file w s)) = launches s \<and>
            pull_file w s = console_print ''[red]Path remote kosong.[/red]'' s1)
       \<and> (\<forall>remote s1 s2.
            prompt_ask ''Path file di device (contoh: /sdcard/Download/file.txt)'' None s = (Inr remote, s1) \<and>
            remote \<noteq> [] \<and>
            prompt_ask ''Path tujuan di PC (lokal)'' None s1 = (Inr [], s2) \<longrightarrow>
            launches (snd (pull_file w s)) = launches s \<and>
            pull_file w s = console_print ''[red]Path tujuan kosong.[/red]'' s2)"
proof -
  have ask: "launches s' = launches s0" if "prompt_ask p d s0 = (r, s')" for p d s0 r s'
    using that by (auto simp: prompt_ask_def Let_def launches_def split: list.splits key.splits)
  have install: "launches (snd (install_apk w s)) = launches s \<and>
      install_apk w s = console_print ''[red]File APK tidak ditemukan.[/red]'' s1"
    if a: "prompt_ask ''Masukkan path ke file APK (lokal)'' None s = (Inr apk_path, s1)"
      and b: "apk_path = [] \<or> \<not> isfile_at w (now s1) apk_path" for apk_path s1
  proof -
    from a b have "install_apk w s = console_print ''[red]File APK tidak ditemukan.[/red]'' s1"
      by (auto simp: install_apk_def bnd_def isfile_now_def)
    then show ?thesis using ask [OF a] by simp
  qed
  have push: "launches (snd (push_file w s)) = launches s \<and>
      push_file w s = console_print ''[red]File sumber tidak ditemukan.[/red]'' s1"
    if a: "prompt_ask ''Path file sumber (PC)'' None s = (Inr src, s1)"
      and b: "src = [] \<or> \<not> exists_at w (now s1) src" for src s1
  proof -
    from a b have "push_file w s = console_print ''[red]File sumber tidak ditemukan.[/red]'' s1"
      by (auto simp: push_file_def bnd_def exists_now_def)
    then show ?thesis using ask [OF a] by simp
  qed
  have pull1: "launches (snd (pull_file w s)) = launches s \<and>
      pull_file w s = console_print ''[red]Path remote kosong.[/red]'' s1"
    if a: "prompt_ask ''Path file di device (contoh: /sdcard/Download/file.txt)'' None s = (Inr [], s1)"
    for s1
  proof -
    from a have "pull_file w s = console_print ''[red]Path remote kosong.[/red]'' s1"
      by (simp add: pull_file_def bnd_def)
    then show ?thesis using ask [OF a] by simp
  qed
  have pull2: "launches (snd (pull_file w s)) = launches s \<and>
      pull_file w s = console_print ''[red]Path tujuan kosong.[/red]'' s2"
    if a: "prompt_ask ''Path file di device (contoh: /sdcard/Download/file.txt)'' None s = (Inr remote, s1)"
      and ne: "remote \<noteq> []"
      and b: "prompt_ask ''Path tujuan di PC (lokal)'' None s1 = (Inr [], s2)" for remote s1 s2
  proof -
    from a ne b have "pull_file w s = console_print ''[red]Path tujuan kosong.[/red]'' s2"
      by (simp add: pull_file_def bnd_def)
    then show ?thesis using ask [OF a] ask [OF b] by simp
  qed
  from install push pull1 pull2 show ?thesis by blast
qed

text \<open>
  The claim fails for Pull as it is stated: on a disk where no path exists, a Pull with a
  non-empty destination that does not exist launches the bridge twice, once to list the
  devices and once to pull.
\<close>

theorem pull_destination_counterexample:
  "exists_at one_device = nothing_there \<and> isfile_at one_device = nothing_there
   \<and> launches (snd (pull_file one_device (session_of [''/sdcard/a.txt'', ''out.txt'']))) =
       [(Captured, [''/usr/bin/adb'', ''devices'']),
        (Captured, [''/usr/bin/adb'', ''-s'', ''emulator-5554'', ''pull'', ''/sdcard/a.txt'', ''out.txt''])]"
  by (simp add: pull_file_def pick_serial_interactive_def no_serial_def launches_def
        world_defs act_defs text_defs)

theorem local_path_validation_witness:
  "launches (snd (install_apk one_device (session_of [''app.apk'']))) = []
   \<and> prints (snd (install_apk one_device (session_of [''app.apk'']))) = [''[red]File APK tidak ditemukan.[/red]'']
   \<and> launches (snd (push_file one_device (session_of [''notes.txt'']))) = []
   \<and> launches (snd (pull_file one_device (session_of [[]]))) = []
   \<and> launches (snd (pull_file one_device (session_of [''/sdcard/a.txt'', []]))) = []"
proof -
  let ?tr = "\<lambda>p ks. \<lparr>inputs = map Typed ks, trace = [Ask p]\<rparr>"
  have a: "prompt_ask ''Masukkan path ke file APK (lokal)'' None (session_of [''app.apk'']) =
             (Inr ''app.apk'', ?tr ''Masukkan path ke file APK (lokal)'' [])
           \<and> (''app.apk'' = [] \<or> \<not> isfile_at one_device (now (?tr ''Masukkan path ke file APK (lokal)'' [])) ''app.apk'')"
    by (simp add: prompt_ask_def session_of_def strip_def is_space_def one_device_def
          listing_world_def linux_world_def nothing_there_def)
  have b: "prompt_ask ''Path file sumber (PC)'' None (session_of [''notes.txt'']) =
             (Inr ''notes.txt'', ?tr ''Path file sumber (PC)'' [])
           \<and> (''notes.txt'' = [] \<or> \<not> exists_at one_device (now (?tr ''Path file sumber (PC)'' [])) ''notes.txt'')"
    by (simp add: prompt_ask_def session_of_def strip_def is_space_def one_device_def
          listing_world_def linux_world_def nothing_there_def)
  have c: "prompt_ask ''Path file di device (contoh: /sdcard/Download/file.txt)'' None (session_of [[]]) =
             (Inr [], ?tr ''Path file di device (contoh: /sdcard/Download/file.txt)'' [])"
    by (simp add: prompt_ask_def session_of_def strip_def)
  have d: "prompt_ask ''Path file di device (contoh: /sdcard/Download/file.txt)'' None
             (session_of [''/sdcard/a.txt'', []]) =
             (Inr ''/sdcard/a.txt'', ?tr ''Path file di device (contoh: /sdcard/Download/file.txt)'' [[]])
           \<and> ''/sdcard/a.txt'' \<noteq> []
           \<and> prompt_ask ''Path tujuan di PC (lokal)'' None
               (?tr ''Path file di device (contoh: /sdcard/Download/file.txt)'' [[]]) =
             (Inr [], \<lparr>inputs = [], trace = [Ask ''Path file di device (contoh: /sdcard/Download/file.txt)'',
                                             Ask ''Path tujuan di PC (lokal)'']\<rparr>)"
    by (simp add: prompt_ask_def session_of_def strip_def is_space_def)
  from local_path_validation [of "session_of [''app.apk'']" one_device] a
  have 1: "launches (snd (install_apk one_device (session_of [''app.apk'']))) = launches (session_of [''app.apk''])
        \<and> install_apk one_device (session_of [''app.apk'']) =
            console_print ''[red]File APK tidak ditemukan.[/red]'' (?tr ''Masukkan path ke file APK (lokal)'' [])"
    by blast
  from local_path_validation [of "session_of [''notes.txt'']" one_device] b
  have 2: "launches (snd (push_file one_device (session_of [''notes.txt'']))) = launches (session_of [''notes.txt''])"
    by blast
  from local_path_validation [of "session_of [[]]" one_device] c
  have 3: "launches (snd (pull_file one_device (session_of [[]]))) = launches (session_of [[]])"
    by blast
  from local_path_validation [of "session_of [''/sdcard/a.txt'', []]" one_device] d
  have 4: "launches (snd (pull_file one_device (session_of [''/sdcard/a.txt'', []]))) =
             launches (session_of [''/sdcard/a.txt'', []])"
    by blast
  from 1 2 3 4 show ?thesis
    by (simp add: launches_def prints_def session_of_def console_print_def emit_def)
qed

subsection \<open>The missing bridge\<close>

text \<open>
  Two properties of an action, used to follow the bridge through every operation: a calm
  action never invokes the bridge; a reporting action raises the tool-missing exception
  whenever it has invoked the bridge.
\<close>

definition calm :: "'a act \<Rightarrow> bool" where
  "calm m \<longleftrightarrow> (\<forall>s. bridge_calls (snd (m s)) = bridge_calls s)"

definition reports :: "'a act \<Rightarrow> bool" where
  "reports m \<longleftrightarrow> (\<forall>s. fst (m s) \<noteq> Inl tool_missing \<longrightarrow> bridge_calls (snd (m s)) = bridge_calls s)"

named_theorems reports_intros

lemma bridge_calls_snoc:
  "bridge_calls (s\<lparr>trace := trace s @ [ev]\<rparr>) =
     bridge_calls s @ (case ev of Launch Captured cmd \<Rightarrow> [cmd] | _ \<Rightarrow> [])"
  by (cases ev) (auto simp: bridge_calls_def launches_def split: io_mode.splits)

lemma bridge_calls_inputs [simp]: "bridge_calls (s\<lparr>inputs := ks\<rparr>) = bridge_calls s"
  by (simp add: bridge_calls_def launches_def)

lemma calm_ret [reports_intros]: "calm (ret x)"
  by (simp add: calm_def ret_def)

lemma calm_raise [reports_intros]: "calm (raise e)"
  by (simp add: calm_def raise_def)

lemma calm_bnd [reports_intros]:
  assumes "calm m" and "\<And>x. calm (f x)"
  shows "calm (bnd m f)"
proof -
  have "bridge_calls (snd (bnd m f s)) = bridge_calls s" for s
  proof (cases "m s")
    case (Pair r s')
    from assms(1) Pair have eq: "bridge_calls s' = bridge_calls s"
      by (auto simp: calm_def dest: spec [of _ s])
    show ?thesis
    proof (cases r)
      case (Inl e)
      with Pair eq show ?thesis by (simp add: bnd_def)
    next
      case (Inr x)
      from assms(2) [of x] have "bridge_calls (snd (f x s')) = bridge_calls s'"
        by (simp add: calm_def)
      with Pair Inr eq show ?thesis by (simp add: bnd_def)
    qed
  qed
  then show ?thesis by (simp add: calm_def)
qed

lemma calm_if [reports_intros]: "calm a \<Longrightarrow> calm b \<Longrightarrow> calm (if c then a else b)"
  by simp

lemma calm_case_prod [reports_intros]:
  "(\<And>a b. calm (f a b)) \<Longrightarrow> calm (case p of (a, b) \<Rightarrow> f a b)"
  by (cases p) simp

lemma calm_emit:
  "(\<And>cmd. ev \<noteq> Launch Captured cmd) \<Longrightarrow> calm (emit ev)"
  by (cases ev) (auto simp: calm_def emit_def bridge_calls_snoc split: io_mode.splits)

lemma calm_console_print [reports_intros]: "calm (console_print t)"
  by (simp add: console_print_def calm_emit)

lemma calm_exists_now [reports_intros]: "calm (exists_now w p)"
  by (simp add: calm_def exists_now_def)

lemma calm_which_now [reports_intros]: "calm (which_now w p)"
  by (simp add: calm_def which_now_def)

lemma calm_attached [reports_intros]: "calm (subprocess_run w Attached cmd)"
  by (simp add: calm_def subprocess_run_def bridge_calls_snoc)

lemma calm_run_checked [reports_intros]: "calm (run_checked w cmd)"
  unfolding run_checked_def by (intro reports_intros)

lemma calm_fetch [reports_intros]: "calm (fetch w url d)"
  by (auto simp: calm_def fetch_def Let_def bridge_calls_snoc split: option.splits)

lemma calm_reports: "calm m \<Longrightarrow> reports m"
  by (simp add: calm_def reports_def)

lemma reports_ret [reports_intros]: "reports (ret x)"
  by (simp add: calm_reports calm_ret)

lemma reports_raise [reports_intros]: "reports (raise e)"
  by (simp add: calm_reports calm_raise)

lemma reports_emit:
  "(\<And>cmd. ev \<noteq> Launch Captured cmd) \<Longrightarrow> reports (emit ev)"
  by (simp add: calm_reports calm_emit)

lemma reports_console_print [reports_intros]: "reports (console_print t)"
  by (simp add: calm_reports calm_console_print)

lemma reports_bnd [reports_intros]:
  assumes "reports m" and "\<And>x. reports (f x)"
  shows "reports (bnd m f)"
proof -
  have "bridge_calls (snd (bnd m f s)) = bridge_calls s"
    if ne: "fst (bnd m f s) \<noteq> Inl tool_missing" for s
  proof (cases "m s")
    case (Pair r s')
    show ?thesis
    proof (cases r)
      case (Inl e)
      with Pair ne have "fst (m s) \<noteq> Inl tool_missing" by (simp add: bnd_def)
      with assms(1) have "bridge_calls (snd (m s)) = bridge_calls s" by (simp add: reports_def)
      with Pair Inl show ?thesis by (simp add: bnd_def)
    next
      case (Inr x)
      with Pair have "fst (m s) \<noteq> Inl tool_missing" by simp
      with assms(1) have "bridge_calls (snd (m s)) = bridge_calls s" by (simp add: reports_def)
      with Pair have eq: "bridge_calls s' = bridge_calls s" by simp
      from Pair Inr ne have "fst (f x s') \<noteq> Inl tool_missing" by (simp add: bnd_def)
      with assms(2) [of x] have "bridge_calls (snd (f x s')) = bridge_calls s'"
        by (simp add: reports_def)
      with Pair Inr eq show ?thesis by (simp add: bnd_def)
    qed
  qed
  then show ?thesis by (simp add: reports_def)
qed

lemma reports_catching [reports_intros]:
  assumes "calm m" and "\<And>e. reports (h e)"
  shows "reports (catching m h)"
proof -
  have "bridge_calls (snd (catching m h s)) = bridge_calls s"
    if ne: "fst (catching m h s) \<noteq> Inl tool_missing" for s
  proof (cases "m s")
    case (Pair r s')
    from assms(1) Pair have eq: "bridge_calls s' = bridge_calls s"
      by (auto simp: calm_def dest: spec [of _ s])
    show ?thesis
    proof (cases r)
      case (Inl e)
      show ?thesis
      proof (cases "is_Exception e")
        case True
        with Pair Inl ne have "fst (h e s') \<noteq> Inl tool_missing" by (simp add: catching_def)
        with assms(2) [of e] have "bridge_calls (snd (h e s')) = bridge_calls s'"
          by (simp add: reports_def)
        with Pair Inl True eq show ?thesis by (simp add: catching_def)
      next
        case False
        with Pair Inl eq show ?thesis by (simp add: catching_def)
      qed
    next
      case (Inr x)
      with Pair eq show ?thesis by (simp add: catching_def)
    qed
  qed
  then show ?thesis by (simp add: reports_def)
qed

lemma reports_if [reports_intros]: "reports a \<Longrightarrow> reports b \<Longrightarrow> reports (if c then a else b)"
  by simp

lemma reports_case_prod [reports_intros]:
  "(\<And>a b. reports (f a b)) \<Longrightarrow> reports (case p of (a, b) \<Rightarrow> f a b)"
  by (cases p) simp

lemma reports_case_option [reports_intros]:
  "reports a \<Longrightarrow> (\<And>x. reports (f x)) \<Longrightarrow> reports (case v of None \<Rightarrow> a | Some x \<Rightarrow> f x)"
  by (cases v) simp_all

lemma reports_case_sum [reports_intros]:
  "(\<And>x. reports (f x)) \<Longrightarrow> (\<And>y. reports (g y)) \<Longrightarrow>
     reports (case v of Inl x \<Rightarrow> f x | Inr y \<Rightarrow> g y)"
  by (cases v) simp_all

lemma reports_print_all [reports_intros]: "reports (print_all ts)"
  by (induction ts) (auto intro: reports_intros)

lemma reports_prompt_ask [reports_intros]: "reports (prompt_ask p d)"
  by (rule calm_reports)
     (auto simp: calm_def prompt_ask_def Let_def bridge_calls_snoc split: list.splits key.splits)

lemma reports_read_line [reports_intros]: "reports read_line"
  by (rule calm_reports)
     (auto simp: calm_def read_line_def Let_def bridge_calls_snoc split: list.splits key.splits)

lemma confirm_keys_calm:
  "bridge_calls \<lparr>inputs = fst (snd (confirm_keys p ks tr)), trace = snd (snd (confirm_keys p ks tr))\<rparr> =
     bridge_calls \<lparr>inputs = ks, trace = tr\<rparr>"
proof (induction p ks tr rule: confirm_keys.induct)
  case (3 p l ks tr)
  then show ?case
    by (auto simp: Let_def bridge_calls_def launches_def)
qed (auto simp: bridge_calls_def launches_def)

lemma reports_confirm_ask [reports_intros]: "reports (confirm_ask p)"
proof (rule calm_reports)
  have "bridge_calls (snd (confirm_ask p s)) = bridge_calls s" for s
    using confirm_keys_calm [of p "inputs s" "trace s"]
    by (cases "confirm_keys p (inputs s) (trace s)")
       (auto simp: confirm_ask_def bridge_calls_def launches_def)
  then show "calm (confirm_ask p)" by (simp add: calm_def)
qed

lemma reports_which_now [reports_intros]: "reports (which_now w exe)"
  by (simp add: calm_reports calm_which_now)

lemma reports_exists_now [reports_intros]: "reports (exists_now w p)"
  by (simp add: calm_reports calm_exists_now)

lemma reports_isfile_now [reports_intros]: "reports (isfile_now w p)"
  by (rule calm_reports) (simp add: calm_def isfile_now_def)

lemma reports_make_dir [reports_intros]: "reports (make_dir w d)"
  by (rule calm_reports)
     (auto simp: calm_def make_dir_def Let_def bridge_calls_snoc split: option.splits)

lemma reports_import_libs [reports_intros]: "reports (import_libs w)"
  by (rule calm_reports) (auto simp: calm_def import_libs_def split: option.splits)

lemma run_adb_absent:
  assumes "bridge_absent w"
  shows "run_adb w args s =
           (Inl tool_missing, s\<lparr>trace := trace s @ [Launch Captured (adb_exe w # args)]\<rparr>)"
proof -
  from assms have w: "which_adb w (now s) = adb_exe w"
    by (simp add: bridge_absent_def which_adb_def)
  from assms obtain m where "run_at w (now s) (adb_exe w # args) = Inl (FileNotFoundError m)"
    unfolding bridge_absent_def by blast
  with w show ?thesis
    by (simp add: run_adb_def subprocess_run_def tool_missing_def)
qed

lemma reports_run_adb [reports_intros]: "bridge_absent w \<Longrightarrow> reports (run_adb w args)"
  by (simp add: reports_def run_adb_absent)


lemma reports_dispatch:
  assumes "bridge_absent w"
  shows "reports (dispatch w choice)"
proof -
  note run = reports_run_adb [OF assms]
  have pick: "reports (pick_serial_interactive w)"
    unfolding pick_serial_interactive_def Let_def by (intro reports_intros run)
  have shell: "reports (\<lambda>s. case subprocess_run w Attached [which_adb w (now s), ''-s'', sn, ''shell''] s of
                  (Inr x, s') \<Rightarrow> (Inr (), s')
                | (Inl KeyboardInterrupt, s') \<Rightarrow> console_print a s'
                | (Inl e, s') \<Rightarrow> console_print (b e) s')" for sn a b
    by (rule calm_reports)
       (auto simp: calm_def subprocess_run_def console_print_def emit_def bridge_calls_def
             launches_def split: sum.splits exn.splits)
  have scrcpy: "reports (ensure_scrcpy w)"
    unfolding ensure_scrcpy_def Let_def by (intro reports_intros)
  have ops:
    "reports (list_devices w)" "reports (start_server w)" "reports (stop_server w)"
    "reports (pair_device w)" "reports (connect_device w)" "reports (enable_tcpip w)"
    "reports (open_shell w)" "reports (run_command_on_device w)" "reports (install_apk w)"
    "reports (push_file w)" "reports (pull_file w)" "reports (reboot_device w)"
    "reports (disconnect_device w)" "reports (try_screen_mirroring w)" "reports show_help"
    unfolding list_devices_def start_server_def stop_server_def pair_device_def
      connect_device_def enable_tcpip_def open_shell_def run_command_on_device_def
      install_apk_def push_file_def pull_file_def reboot_device_def disconnect_device_def
      try_screen_mirroring_def show_help_def Let_def
    by (intro reports_intros reports_emit run pick shell scrcpy; simp)+
  show ?thesis
    unfolding dispatch_def by (intro reports_intros ops)
qed

lemma reportsD:
  "reports m \<Longrightarrow> m s = (r, s') \<Longrightarrow> r \<noteq> Inl tool_missing \<Longrightarrow> bridge_calls s' = bridge_calls s"
  by (auto simp: reports_def dest: spec [of _ s])

lemma cycle_reports:
  assumes absent: "bridge_absent w"
    and called: "bridge_calls (snd (cycle w s)) \<noteq> bridge_calls s"
  shows "cycle w s = (Stop, snd (cycle w s))"
    and "last (trace (snd (cycle w s))) = Print (''[red]'' @ tool_missing_text @ ''[/red]'')"
proof -
  define s0 where "s0 = snd (bnd (emit Clear_screen) (\<lambda>_. show_menu) s)"
  have s0: "bridge_calls s0 = bridge_calls s"
    by (simp add: s0_def bnd_def emit_def show_menu_def bridge_calls_def launches_def)
  have head: "bnd (emit Clear_screen) (\<lambda>_. bnd show_menu (\<lambda>_. prompt_ask p d)) s = prompt_ask p d s0"
    for p d
    by (simp add: s0_def bnd_def emit_def show_menu_def)
  obtain r1 s1 where p1: "prompt_ask (CHR 0x0A # ''[bold]Pilih nomor aksi[/bold]'') (Some ''1'') s0 = (r1, s1)"
    by (cases "prompt_ask (CHR 0x0A # ''[bold]Pilih nomor aksi[/bold]'') (Some ''1'') s0")
  have c1: "bridge_calls s1 = bridge_calls s"
    using reportsD [OF reports_prompt_ask p1] p1 s0
    by (auto simp: prompt_ask_def Let_def bridge_calls_snoc split: list.splits key.splits)
  from called p1 c1 obtain choice where r1: "r1 = Inr choice"
    by (cases r1) (auto simp: cycle_def head)
  obtain r2 s2 where p2: "dispatch w choice s1 = (r2, s2)"
    by (cases "dispatch w choice s1")
  define pause where
    "pause = bnd (console_print (CHR 0x0A # ''[dim]Tekan Enter untuk kembali ke menu...[/dim]''))
               (\<lambda>_. read_line)"
  have rp: "reports pause"
    unfolding pause_def by (intro reports_intros)
  have calm_pause: "bridge_calls (snd (pause s2)) = bridge_calls s2"
  proof -
    have "fst (pause s2) \<noteq> Inl tool_missing"
      by (auto simp: pause_def bnd_def console_print_def emit_def read_line_def Let_def
            tool_missing_def split: list.splits key.splits)
    with rp show ?thesis by (simp add: reports_def)
  qed
  have cyc: "cycle w s =
      (case r2 of
         Inl (FileNotFoundError m) \<Rightarrow> (Stop, snd (console_print (''[red]'' @ m @ ''[/red]'') s2))
       | Inl KeyboardInterrupt \<Rightarrow>
           (Stop, snd (console_print (CHR 0x0A # ''[yellow]Dibatalkan oleh user.[/yellow]'') s2))
       | Inl e \<Rightarrow> (Crash e, s2)
       | Inr True \<Rightarrow> (Stop, s2)
       | Inr False \<Rightarrow>
           (case pause s2 of
              (Inr _, s3) \<Rightarrow> (Again, s3)
            | (Inl KeyboardInterrupt, s3) \<Rightarrow>
                (Stop, snd (console_print (CHR 0x0A # ''[yellow]Interrupted. Keluar.[/yellow]'') s3))
            | (Inl e, s3) \<Rightarrow> (Crash e, s3)))"
    unfolding pause_def using p1 r1 p2 by (simp add: cycle_def head)
  have tm: "r2 = Inl tool_missing"
  proof (rule ccontr)
    assume ne: "r2 \<noteq> Inl tool_missing"
    from reportsD [OF reports_dispatch [OF absent] p2 ne] c1
    have c2: "bridge_calls s2 = bridge_calls s" by simp
    have print: "bridge_calls (snd (console_print t s')) = bridge_calls s'" for t s'
      by (simp add: console_print_def emit_def bridge_calls_snoc)
    have "bridge_calls (snd (cycle w s)) = bridge_calls s"
      unfolding cyc using c2 calm_pause
      by (cases "pause s2")
         (auto simp: print split: sum.splits exn.splits bool.splits)
    with called show False by simp
  qed
  from tm show "cycle w s = (Stop, snd (cycle w s))"
    unfolding cyc by (simp add: tool_missing_def)
  from tm show "last (trace (snd (cycle w s))) = Print (''[red]'' @ tool_missing_text @ ''[/red]'')"
    unfolding cyc by (simp add: tool_missing_def console_print_def emit_def)
qed

text \<open>
  Claim C1, as amended.  Let the bridge be entirely absent.  Whenever the operation chosen at
  the menu invokes the bridge, it raises the tool-missing exception, and the pass of the loop
  that invoked the bridge ends the loop with the tool-missing text as the last thing printed.
  List devices, Start server, Stop server, Open shell, Run command and Reboot invoke the
  bridge before anything else, in every state, so they always end the session this way.
  Help never invokes the bridge and never raises the tool-missing exception: in every state
  it returns normally.
\<close>

theorem tool_missing_ends_session:
  assumes "bridge_absent w"
  shows "(\<forall>choice s1. bridge_calls (snd (dispatch w choice s1)) \<noteq> bridge_calls s1 \<longrightarrow>
            fst (dispatch w choice s1) = Inl tool_missing)
       \<and> (bridge_calls (snd (cycle w s)) \<noteq> bridge_calls s \<longrightarrow>
            cycles w s = (None, snd (cycle w s)) \<and>
            last (trace (snd (cycle w s))) = Print (''[red]'' @ tool_missing_text @ ''[/red]''))
       \<and> (\<forall>choice \<in> set [''1'', ''2'', ''3'', ''7'', ''8'', ''12'']. \<forall>s1.
            fst (dispatch w choice s1) = Inl tool_missing \<and>
            bridge_calls (snd (dispatch w choice s1)) \<noteq> bridge_calls s1)
       \<and> (\<forall>s1. fst (dispatch w ''15'' s1) = Inr False \<and>
                 bridge_calls (snd (dispatch w ''15'' s1)) = bridge_calls s1)"
proof (intro conjI)
  show "\<forall>s1. fst (dispatch w ''15'' s1) = Inr False \<and>
               bridge_calls (snd (dispatch w ''15'' s1)) = bridge_calls s1"
    by (simp add: dispatch_def show_help_def bnd_def emit_def ret_def bridge_calls_snoc)
next
  show "\<forall>choice s1. bridge_calls (snd (dispatch w choice s1)) \<noteq> bridge_calls s1 \<longrightarrow>
          fst (dispatch w choice s1) = Inl tool_missing"
    using reports_dispatch [OF assms] by (auto simp: reports_def)
  show "bridge_calls (snd (cycle w s)) \<noteq> bridge_calls s \<longrightarrow>
          cycles w s = (None, snd (cycle w s)) \<and>
          last (trace (snd (cycle w s))) = Print (''[red]'' @ tool_missing_text @ ''[/red]'')"
    using cycle_reports [OF assms] cycles_Stop by blast
  have pick: "pick_serial_interactive w s1 =
      (Inl tool_missing, s1\<lparr>trace := trace s1 @ [Launch Captured [adb_exe w, ''devices'']]\<rparr>)" for s1
    by (simp add: pick_serial_interactive_def bnd_def run_adb_absent [OF assms])
  show "\<forall>choice \<in> set [''1'', ''2'', ''3'', ''7'', ''8'', ''12'']. \<forall>s1.
          fst (dispatch w choice s1) = Inl tool_missing \<and>
          bridge_calls (snd (dispatch w choice s1)) \<noteq> bridge_calls s1"
    by (simp add: dispatch_def list_devices_def start_server_def stop_server_def open_shell_def
          run_command_on_device_def reboot_device_def bnd_def run_adb_absent [OF assms] pick
          bridge_calls_snoc)
qed

text \<open>
  The claim fails for Help as it is stated: without the bridge, Help raises nothing,
  launches nothing, and the loop goes round again.
\<close>

theorem help_without_bridge_counterexample:
  "bridge_absent no_bridge
   \<and> fst (dispatch no_bridge ''15'' (session_of [[]])) = Inr False
   \<and> fst (cycle no_bridge (session_of [''15'', []])) = Again
   \<and> launches (snd (cycle no_bridge (session_of [''15'', []]))) = []"
  by (simp add: bridge_absent_def no_bridge_def nothing_there_def session_of_def cycle_def
        dispatch_def show_help_def show_menu_def launches_def act_defs strip_def is_space_def)


theorem tool_missing_ends_session_witness:
  "bridge_absent no_bridge
   \<and> fst (dispatch no_bridge ''7'' (session_of [])) = Inl tool_missing
   \<and> fst (dispatch no_bridge ''15'' (session_of [])) = Inr False
   \<and> fst (main_loop no_bridge (session_of [''7''])) = None
   \<and> last (trace (snd (main_loop no_bridge (session_of [''7''])))) =
       Print ''[red]ADB tidak ditemukan. Pastikan adb terpasang atau unduh otomatis.[/red]''"
proof -
  let ?s = "\<lparr>inputs = [Typed ''7''],
              trace = [Print ''[yellow]ADB tidak ditemukan. Silakan pasang manual (platform-tools).[/yellow]'']\<rparr>"
  have absent: "bridge_absent no_bridge"
    by (simp add: bridge_absent_def no_bridge_def nothing_there_def)
  have start: "main_loop no_bridge (session_of [''7'']) = cycles no_bridge ?s"
    by (simp add: main_loop_def ensure_adb_def no_bridge_def nothing_there_def session_of_def
          act_defs)
  have called: "bridge_calls (snd (cycle no_bridge ?s)) \<noteq> bridge_calls ?s"
    by (simp add: cycle_def dispatch_def open_shell_def pick_serial_interactive_def show_menu_def
          bridge_calls_def launches_def no_bridge_def nothing_there_def act_defs strip_def
          is_space_def)
  have seven: "''7'' \<in> set [''1'', ''2'', ''3'', ''7'', ''8'', ''12'']" by simp
  from tool_missing_ends_session [OF absent, of ?s] called seven
  have "cycles no_bridge ?s = (None, snd (cycle no_bridge ?s))"
    and "last (trace (snd (cycle no_bridge ?s))) = Print (''[red]'' @ tool_missing_text @ ''[/red]'')"
    and "fst (dispatch no_bridge ''7'' (session_of [])) = Inl tool_missing"
    and "fst (dispatch no_bridge ''15'' (session_of [])) = Inr False"
    by blast+
  with absent start show ?thesis
    by (simp add: tool_missing_text_def)
qed

subsection \<open>Defects\<close>

text \<open>
  Claim C2 does not hold of the device selector.  The selector keeps every non-blank line
  after the header in which the letters \<^verbatim>\<open>device\<close> occur anywhere.  In the listing below, the
  banner line that begins with \<^verbatim>\<open>*\<close> and the unauthorized device whose serial contains
  \<^verbatim>\<open>device\<close> are both offered, and the selection \<^verbatim>\<open>1\<close> returns \<^verbatim>\<open>*\<close> as a serial.  The
  device check of \<^verbatim>\<open>try_screen_mirroring\<close> drops the banner line of the same listing.
\<close>

theorem banner_line_is_selectable:
  "ready_serials (listing_of
     [''* daemon started, waiting for device *'',
      ''testdevice01'' @ [CHR 0x09] @ ''unauthorized'',
      ''emulator-5554'' @ [CHR 0x09] @ ''device'']) = [''*'', ''testdevice01'', ''emulator-5554'']
   \<and> fst (pick_serial_interactive banner_world (session_of [''1''])) = Inr (Some ''*'')
   \<and> mirror_devices (listing_of
     [''* daemon started, waiting for device *'',
      ''testdevice01'' @ [CHR 0x09] @ ''unauthorized'',
      ''emulator-5554'' @ [CHR 0x09] @ ''device'']) =
     [''testdevice01'' @ [CHR 0x09] @ ''unauthorized'', ''emulator-5554'' @ [CHR 0x09] @ ''device'']"
proof -
  have a: "ready_serials (listing_of
     [''* daemon started, waiting for device *'',
      ''testdevice01'' @ [CHR 0x09] @ ''unauthorized'',
      ''emulator-5554'' @ [CHR 0x09] @ ''device'']) = [''*'', ''testdevice01'', ''emulator-5554'']"
    by (simp add: listing_of_def adb_lines_def text_defs)
  have b: "fst (pick_serial_interactive banner_world (session_of [''1''])) = Inr (Some ''*'')"
    by (simp add: pick_serial_interactive_def chosen_serial_def py_int_def py_index_def
          is_cspace_def digits_def is_digit_def digit_val_def numbered_def print_all_state
          world_defs act_defs text_defs)
  have c: "mirror_devices (listing_of
     [''* daemon started, waiting for device *'',
      ''testdevice01'' @ [CHR 0x09] @ ''unauthorized'',
      ''emulator-5554'' @ [CHR 0x09] @ ''device'']) =
     [''testdevice01'' @ [CHR 0x09] @ ''unauthorized'', ''emulator-5554'' @ [CHR 0x09] @ ''device'']"
    by (simp add: mirror_devices_def listing_of_def adb_lines_def text_defs)
  from a b c show ?thesis by simp
qed

text \<open>
  Claim C4 does not hold of the device selector, through the same filter.  In the first
  listing exactly one device is in state \<^verbatim>\<open>device\<close>, after a banner line in which the letters
  \<^verbatim>\<open>device\<close> occur: the selector does not return that device, it shows the selection prompt,
  reads the line the user types, and on an empty line returns \<^verbatim>\<open>*\<close>.  In the second listing
  no device is in state \<^verbatim>\<open>device\<close>, the only one attached being unauthorized with the letters
  \<^verbatim>\<open>device\<close> in its serial: the selector returns that serial and prints nothing about the
  absence of a device.
\<close>

theorem selector_miscounts_ready_devices:
  "asks (snd (pick_serial_interactive banner_one_device (session_of [[]]))) = [''Pilih device'']
   \<and> inputs (snd (pick_serial_interactive banner_one_device (session_of [[]]))) = []
   \<and> prints (snd (pick_serial_interactive banner_one_device (session_of [[]]))) =
       [''1. *'', ''2. emulator-5554'']
   \<and> fst (pick_serial_interactive banner_one_device (session_of [[]])) = Inr (Some ''*'')
   \<and> fst (pick_serial_interactive lone_unauthorized (session_of [])) = Inr (Some ''testdevice01'')
   \<and> prints (snd (pick_serial_interactive lone_unauthorized (session_of []))) = []
   \<and> asks (snd (pick_serial_interactive lone_unauthorized (session_of []))) = []"
proof -
  have n2: "numbered [''*'', ''emulator-5554''] = [''1. *'', ''2. emulator-5554'']"
    by code_simp
  have a: "pick_serial_interactive banner_one_device (session_of [[]]) =
      (Inr (Some ''*''),
       \<lparr>inputs = [],
          trace = [Launch Captured [''/usr/bin/adb'', ''devices''],
                   Print ''1. *'', Print ''2. emulator-5554'', Ask ''Pilih device'']\<rparr>)"
    by (simp add: pick_serial_interactive_def chosen_serial_def py_int_def py_index_def
          is_cspace_def digits_def is_digit_def digit_val_def n2 print_all_state
          world_defs act_defs text_defs)
  have b: "pick_serial_interactive lone_unauthorized (session_of []) =
      (Inr (Some ''testdevice01''),
       \<lparr>inputs = [], trace = [Launch Captured [''/usr/bin/adb'', ''devices'']]\<rparr>)"
    by (simp add: pick_serial_interactive_def world_defs act_defs text_defs)
  show ?thesis
    unfolding a b by (simp add: asks_def prints_def)
qed

text \<open>
  Claim C6 does not hold of the main loop.  With one ready device, the menu choice \<^verbatim>\<open>8\<close>
  and the command \<^verbatim>\<open>echo "abc\<close>, \<^verbatim>\<open>shlex.split\<close> raises \<^verbatim>\<open>ValueError\<close>; neither
  \<^verbatim>\<open>run_command_on_device\<close> nor the loop catches it, so it leaves \<^verbatim>\<open>main_loop\<close> and nothing
  is printed about it.
\<close>

theorem unbalanced_quote_escapes:
  "fst (main_loop one_device (session_of [''8'', ''echo '' @ [CHR 0x22] @ ''abc''])) =
     Some (ValueError ''No closing quotation'')
   \<and> prints (snd (main_loop one_device (session_of [''8'', ''echo '' @ [CHR 0x22] @ ''abc'']))) = []"
proof -
  let ?s = "session_of [''8'', ''echo '' @ [CHR 0x22] @ ''abc'']"
  have start: "main_loop one_device ?s = cycles one_device ?s"
    by (simp add: main_loop_def ensure_adb_def world_defs act_defs)
  have "fst (cycle one_device ?s) = Crash (ValueError ''No closing quotation'')
      \<and> prints (snd (cycle one_device ?s)) = []"
    by (simp add: cycle_def dispatch_def run_command_on_device_def pick_serial_interactive_def
          show_menu_def no_serial_def shlex_split_def lex_whitespace_def lex_is_quote_def
          lex_emit_def prints_def world_defs act_defs text_defs)
  then have "cycles one_device ?s =
      (Some (ValueError ''No closing quotation''), snd (cycle one_device ?s))
      \<and> prints (snd (cycle one_device ?s)) = []"
    by (cases "cycle one_device ?s") (simp add: cycles_Crash)
  with start show ?thesis by simp
qed

subsection \<open>The indexed reads of the parsers are in range\<close>

text \<open>
  \<^verbatim>\<open>line.split()[0]\<close> in the device selector and \<^verbatim>\<open>parts[0]\<close> in \<^verbatim>\<open>list_devices\<close> are
  only evaluated on lines that pass \<^verbatim>\<open>line.strip()\<close>; such a line has a first token, so the
  reads never raise.
\<close>

lemma dropWhile_Nil_iff: "dropWhile P xs = [] \<longleftrightarrow> (\<forall>x \<in> set xs. P x)"
  by (induction xs) auto

lemma strip_empty_iff: "strip line = [] \<longleftrightarrow> (\<forall>c \<in> set line. is_space c)"
proof
  assume "strip line = []"
  then have all: "\<forall>x \<in> set (dropWhile is_space line). is_space x"
    by (simp add: strip_def dropWhile_Nil_iff)
  have "dropWhile is_space line = []"
  proof (rule ccontr)
    assume ne: "dropWhile is_space line \<noteq> []"
    then have "\<not> is_space (hd (dropWhile is_space line))" by (rule hd_dropWhile)
    moreover from ne have "hd (dropWhile is_space line) \<in> set (dropWhile is_space line)"
      by (rule hd_in_set)
    ultimately show False using all by blast
  qed
  then show "\<forall>c \<in> set line. is_space c" by (simp only: dropWhile_Nil_iff)
next
  assume "\<forall>c \<in> set line. is_space c"
  then show "strip line = []" by (auto simp: strip_def dest: set_dropWhileD)
qed


lemma str_split_empty_iff: "str_split line = [] \<longleftrightarrow> (\<forall>c \<in> set line. is_space c)"
proof (induction line)
  case Nil
  show ?case by simp
next
  case (Cons c cs)
  show ?case
  proof (cases "is_space c")
    case True
    with Cons show ?thesis by simp
  next
    case False
    have "str_split (c # cs) \<noteq> []"
    proof (cases "str_split cs")
      case Nil
      with False show ?thesis by simp
    next
      case (Cons t ts)
      with False show ?thesis by (cases cs) simp_all
    qed
    with False show ?thesis by auto
  qed
qed

lemma first_token_in_range: "strip line \<noteq> [] \<Longrightarrow> 0 < length (str_split line)"
proof -
  assume "strip line \<noteq> []"
  then have "\<not> (\<forall>c \<in> set line. is_space c)"
    using strip_empty_iff [of line] by blast
  then have "str_split line \<noteq> []"
    using str_split_empty_iff [of line] by blast
  then show ?thesis by blast
qed

lemma first_part_in_range: "strip line \<noteq> [] \<Longrightarrow> 0 < length (split_max1 line)"
proof -
  assume "strip line \<noteq> []"
  then have "\<not> (\<forall>c \<in> set line. is_space c)"
    using strip_empty_iff [of line] by blast
  then have ne: "dropWhile is_space line \<noteq> []"
    using dropWhile_Nil_iff [of is_space line] by blast
  then obtain d ds where dw: "dropWhile is_space line = d # ds"
    by (cases "dropWhile is_space line") blast+
  from dw have d: "\<not> is_space d" by (blast dest: dropWhile_eq_Cons_conv [THEN iffD1])
  from d have t: "takeWhile (\<lambda>c. \<not> is_space c) (d # ds) \<noteq> []" by simp
  have "(if a = [] then [] else if b = [] then [a] else [a, b]) \<noteq> []"
    if "a \<noteq> []" for a b :: string
    using that by (cases "b = []") simp_all
  from this [OF t] have "split_max1 line \<noteq> []"
    unfolding split_max1_def Let_def dw .
  then show ?thesis by blast
qed

end
